theory Spec2Isabelle
  imports Complex_Main "HOL-Library.Word"
begin

section \<open>Data model\<close>

text \<open>
  The development embeds \<^verbatim>\<open>upscale_with_vectorization\<close> of \<^verbatim>\<open>svgutils.py\<close>: a PIL
  image is written as a BMP temp file, traced by the external \<^verbatim>\<open>potrace\<close> process into
  an SVG temp file, rendered by CairoSVG to PNG bytes and decoded back into a PIL image.

  Python exceptions are values. \<open>RuntimeError\<close> is what the function raises itself, with
  the message of the source; \<open>OtherException\<close> is an exception of a library call that the
  function does not catch (it propagates to the caller as it is), with its text.
  Interrupts (\<^verbatim>\<open>KeyboardInterrupt\<close> and the other exceptions outside \<^verbatim>\<open>Exception\<close>) are
  not modelled.
\<close>

type_synonym path = string
type_synonym bytes = string
type_synonym pixel = "8 word list"
type_synonym ref = nat

datatype exn = RuntimeError string | OtherException string

text \<open>
  A PIL image object: its mode string, its size (width, height), its pixel buffer in
  row-major order (one list of 8-bit channel values per pixel) and whether the lazily
  decoded pixel data has been loaded.
\<close>

record image =
  mode :: string
  size_wh :: "nat \<times> nat"
  pixels :: "pixel list"
  loaded :: bool

text \<open>The \<^verbatim>\<open>CompletedProcess\<close> that \<^verbatim>\<open>subprocess.run(..., capture_output=True, text=True)\<close> returns.\<close>

record completed_process =
  returncode :: int
  stdout :: string
  stderr :: string

text \<open>
  What a child process has left when it has run to its end: its exit status and the bytes
  it wrote to its standard output and its standard error.
\<close>

record child_exit =
  exit_status :: int
  out_bytes :: bytes
  err_bytes :: bytes

text \<open>
  The keyword arguments of one \<^verbatim>\<open>cairosvg.svg2png\<close> call. The scale is a Python float
  that the function only passes on and never computes with; it is a real number here.
\<close>

record svg2png_args =
  bytestring :: bytes
  scale :: real
  output_width :: "int option"
  output_height :: "int option"

text \<open>
  The calls the function makes into its external collaborators, in the order it makes
  them: the BMP encoder with the image it is given; the child process, once when it has
  run to its end (\<open>Exited\<close>, with its command line and what it left) and once when
  \<^verbatim>\<open>subprocess.run\<close> is over (\<open>Run\<close>, with the command line and what the call returned,
  \<open>None\<close> when it raised); and the renderer with its arguments.
\<close>

datatype event =
    BmpSave image
  | Exited "string list" child_exit
  | Run "string list" "completed_process option"
  | Svg2Png svg2png_args

text \<open>
  The world the function runs in: the files that exist with their contents, the PIL image
  objects that exist (a reference is an index; a new object is appended, so no two
  references alias unless they are equal), and the external calls made so far.
\<close>

record world =
  files :: "path \<rightharpoonup> bytes"
  heap :: "image list"
  calls :: "event list"

text \<open>
  What the function cannot decide: the answers of the operating system and of the
  libraries. Every theorem quantifies over all of them.
  \<^item> \<open>which\<close>: \<^verbatim>\<open>shutil.which\<close>.
  \<^item> \<open>load_error\<close>: \<open>Some msg\<close> when decoding the pixel data of a lazily opened image raises.
  \<^item> \<open>composite_lib\<close>: \<^verbatim>\<open>Image.alpha_composite\<close> on a destination that is not RGBA (what
    it does there depends on the version of Pillow); \<open>Inl msg\<close> when PIL raises.
  \<^item> \<open>convert_lib\<close>: PIL's pixel conversion between two modes other than the ones written
    out in \<open>convert_pixels\<close>; \<open>Inl msg\<close> when PIL raises.
  \<^item> \<open>bmp_save\<close>: PIL's BMP encoder; \<open>Inl msg\<close> when it raises.
  \<^item> \<open>named_temporary_file\<close>, \<open>mkstemp\<close>: the path of the new temp file for a suffix, or
    \<open>Inl msg\<close> when the file cannot be created.
  \<^item> \<open>file_write\<close>: \<open>Some msg\<close> when writing (or flushing on close) the data to the path raises.
  \<^item> \<open>child_process\<close>: the child process run on a command line and a file system: \<open>Inl msg\<close>
    when it cannot be launched, else what it left when it ended (exit status, output
    bytes) and the file system it left.
  \<^item> \<open>decode\<close>: the decoder of the locale's encoding, which \<^verbatim>\<open>text=True\<close> applies to the
    child's output; \<open>Inl msg\<close> when the bytes are no text in that encoding
    (\<^verbatim>\<open>UnicodeDecodeError\<close>).
  \<^item> \<open>open_error\<close>: the text of the error of opening a path that does not exist.
  \<^item> \<open>svg2png\<close>: the renderer; \<open>Inl msg\<close> when it raises.
  \<^item> \<open>image_open\<close>: \<^verbatim>\<open>Image.open\<close> on bytes; \<open>Inl msg\<close> when it raises.
  \<^item> \<open>os_remove_fails\<close>: whether \<^verbatim>\<open>os.remove\<close> of the path raises \<^verbatim>\<open>OSError\<close>.
\<close>

record env =
  which :: "string \<Rightarrow> path option"
  load_error :: "image \<Rightarrow> string option"
  composite_lib :: "image \<Rightarrow> image \<Rightarrow> string + image"
  convert_lib :: "string \<Rightarrow> string \<Rightarrow> pixel list \<Rightarrow> string + pixel list"
  bmp_save :: "image \<Rightarrow> string + bytes"
  named_temporary_file :: "string \<Rightarrow> string + path"
  file_write :: "path \<Rightarrow> bytes \<Rightarrow> string option"
  mkstemp :: "string \<Rightarrow> string + path"
  child_process :: "string list \<Rightarrow> (path \<rightharpoonup> bytes) \<Rightarrow> string + child_exit \<times> (path \<rightharpoonup> bytes)"
  decode :: "bytes \<Rightarrow> string + string"
  open_error :: "path \<Rightarrow> string"
  svg2png :: "svg2png_args \<Rightarrow> string + bytes"
  image_open :: "bytes \<Rightarrow> string + image"
  os_remove_fails :: "path \<Rightarrow> bool"

section \<open>The PIL operations the function calls\<close>

text \<open>A new image object gets the next free reference.\<close>

definition alloc :: "image \<Rightarrow> world \<Rightarrow> ref \<times> world" where
  "alloc im w = (length (heap w), w\<lparr>heap := heap w @ [im]\<rparr>)"

text \<open>
  \<^verbatim>\<open>im.load()\<close>: nothing to do on a loaded image; otherwise the pixel data is decoded,
  which marks the object loaded or raises.
\<close>

definition load :: "env \<Rightarrow> ref \<Rightarrow> world \<Rightarrow> (string + unit) \<times> world" where
  "load e r w =
     (let im = heap w ! r in
      if loaded im then (Inr (), w)
      else (case load_error e im of
              Some msg \<Rightarrow> (Inl msg, w)
            | None \<Rightarrow> (Inr (), w\<lparr>heap := (heap w)[r := im\<lparr>loaded := True\<rparr>]\<rparr>)))"

text \<open>\<^verbatim>\<open>Image.new(mode, size, color)\<close>: every pixel is the colour.\<close>

definition Image_new :: "string \<Rightarrow> nat \<times> nat \<Rightarrow> pixel \<Rightarrow> world \<Rightarrow> ref \<times> world" where
  "Image_new m sz color w =
     alloc \<lparr>mode = m, size_wh = sz, pixels = replicate (fst sz * snd sz) color, loaded = True\<rparr> w"

text \<open>
  Pillow's \<^verbatim>\<open>ImagingAlphaComposite\<close> on one pixel pair, destination first. The C code
  computes in 32-bit unsigned integers with 7 extra bits of precision; no intermediate
  value reaches \<open>2 ^ 32\<close> (the largest is \<open>255 * 255 * 255 * 128\<close>), so the natural
  numbers compute the same. \<open>SHIFTFORDIV255\<close> is the macro \<^verbatim>\<open>((((a) >> 8) + a) >> 8)\<close>.
\<close>

definition SHIFTFORDIV255 :: "nat \<Rightarrow> nat" where
  "SHIFTFORDIV255 a = (a div 256 + a) div 256"

definition composite_channel :: "nat \<Rightarrow> nat \<Rightarrow> 8 word \<Rightarrow> 8 word \<Rightarrow> 8 word" where
  "composite_channel coef1 coef2 s d =
     of_nat (SHIFTFORDIV255 (unat s * coef1 + unat d * coef2 + 128 * 128) div 128)"

definition alpha_composite_px :: "pixel \<Rightarrow> pixel \<Rightarrow> pixel" where
  "alpha_composite_px dst src =
     (if length dst = 4 \<and> length src = 4 then
        (if src ! 3 = 0 then dst
         else
           (let blend = unat (dst ! 3) * (255 - unat (src ! 3));
                outa255 = unat (src ! 3) * 255 + blend;
                coef1 = unat (src ! 3) * 255 * 255 * 128 div outa255;
                coef2 = 255 * 128 - coef1
            in [composite_channel coef1 coef2 (src ! 0) (dst ! 0),
                composite_channel coef1 coef2 (src ! 1) (dst ! 1),
                composite_channel coef1 coef2 (src ! 2) (dst ! 2),
                of_nat (SHIFTFORDIV255 (outa255 + 128))]))
      else dst)"

text \<open>
  \<^verbatim>\<open>Image.alpha_composite(im1, im2)\<close>: loads both images and returns a new image; neither
  argument is written. On an RGBA destination, the only one the function ever passes, it
  raises \<^verbatim>\<open>ValueError\<close> unless the source is RGBA of the same size; on any other
  destination it is the library's.
\<close>

definition alpha_composite :: "env \<Rightarrow> ref \<Rightarrow> ref \<Rightarrow> world \<Rightarrow> (string + ref) \<times> world" where
  "alpha_composite e im1 im2 w =
     (case load e im1 w of
        (Inl msg, w1) \<Rightarrow> (Inl msg, w1)
      | (Inr _, w1) \<Rightarrow>
          (case load e im2 w1 of
             (Inl msg, w2) \<Rightarrow> (Inl msg, w2)
           | (Inr _, w2) \<Rightarrow>
               (let dst = heap w2 ! im1; src = heap w2 ! im2 in
                if mode dst \<noteq> ''RGBA'' then
                  (case composite_lib e dst src of
                     Inl msg \<Rightarrow> (Inl msg, w2)
                   | Inr im \<Rightarrow> (case alloc (im\<lparr>loaded := True\<rparr>) w2 of (r, w3) \<Rightarrow> (Inr r, w3)))
                else if \<not> (mode src = mode dst \<and> size_wh src = size_wh dst)
                then (Inl ''images do not match'', w2)
                else (case alloc \<lparr>mode = ''RGBA'', size_wh = size_wh dst,
                                   pixels = map2 alpha_composite_px (pixels dst) (pixels src),
                                   loaded = True\<rparr> w2 of
                        (r, w3) \<Rightarrow> (Inr r, w3)))))"

text \<open>
  The pixels of \<^verbatim>\<open>im.convert(mode)\<close>. Two conversions are written out: to the image's own
  mode (a copy) and from RGBA to RGB, which drops the alpha byte. Every other pair is the
  library's (a conversion to RGBA, for one, depends on the transparency information of
  the image, which is not modelled).
\<close>

definition convert_pixels :: "env \<Rightarrow> string \<Rightarrow> string \<Rightarrow> pixel list \<Rightarrow> string + pixel list" where
  "convert_pixels e src_mode dst_mode px =
     (if src_mode = dst_mode then Inr px
      else if src_mode = ''RGBA'' \<and> dst_mode = ''RGB'' then Inr (map (take 3) px)
      else convert_lib e src_mode dst_mode px)"

text \<open>
  \<^verbatim>\<open>im.convert(mode)\<close>: loads the image and returns a new, loaded image of the mode (a
  copy when the mode is the image's own); the image itself is not written.
\<close>

definition convert :: "env \<Rightarrow> ref \<Rightarrow> string \<Rightarrow> world \<Rightarrow> (string + ref) \<times> world" where
  "convert e r m w =
     (case load e r w of
        (Inl msg, w1) \<Rightarrow> (Inl msg, w1)
      | (Inr _, w1) \<Rightarrow>
          (let im = heap w1 ! r in
           case convert_pixels e (mode im) m (pixels im) of
             Inl msg \<Rightarrow> (Inl msg, w1)
           | Inr px \<Rightarrow>
               (case alloc \<lparr>mode = m, size_wh = size_wh im, pixels = px, loaded = True\<rparr> w1 of
                  (r', w2) \<Rightarrow> (Inr r', w2))))"

text \<open>
  \<^verbatim>\<open>im.save(buffer, format="BMP")\<close>: loads the image and hands it to the BMP encoder.
\<close>

definition save :: "env \<Rightarrow> ref \<Rightarrow> world \<Rightarrow> (string + bytes) \<times> world" where
  "save e r w =
     (case load e r w of
        (Inl msg, w1) \<Rightarrow> (Inl msg, w1)
      | (Inr _, w1) \<Rightarrow>
          (let w2 = w1\<lparr>calls := calls w1 @ [BmpSave (heap w1 ! r)]\<rparr> in
           (bmp_save e (heap w1 ! r), w2)))"

text \<open>
  \<^verbatim>\<open>Image.open(io.BytesIO(data))\<close>: a new image object whose pixel data is not decoded yet.
\<close>

definition Image_open :: "env \<Rightarrow> bytes \<Rightarrow> world \<Rightarrow> (string + ref) \<times> world" where
  "Image_open e data w =
     (case image_open e data of
        Inl msg \<Rightarrow> (Inl msg, w)
      | Inr im \<Rightarrow> (case alloc (im\<lparr>loaded := False\<rparr>) w of (r, w1) \<Rightarrow> (Inr r, w1)))"

section \<open>The child process\<close>

text \<open>
  Universal newlines, as Python's text mode reads them: a carriage return followed by a
  line feed, and a carriage return alone, become one line feed.
\<close>

fun translate_newlines :: "string \<Rightarrow> string" where
  "translate_newlines [] = []"
| "translate_newlines [c] = [if c = CHR 0x0D then CHR 0x0A else c]"
| "translate_newlines (c # d # cs) =
     (if c = CHR 0x0D \<and> d = CHR 0x0A then CHR 0x0A # translate_newlines cs
      else if c = CHR 0x0D then CHR 0x0A # translate_newlines (d # cs)
      else c # translate_newlines (d # cs))"

text \<open>What \<^verbatim>\<open>text=True\<close> makes of the bytes of a stream: decoded, newlines translated.\<close>

definition text_mode :: "env \<Rightarrow> bytes \<Rightarrow> string + string" where
  "text_mode e data =
     (case decode e data of Inl msg \<Rightarrow> Inl msg | Inr s \<Rightarrow> Inr (translate_newlines s))"

text \<open>
  The \<^verbatim>\<open>CompletedProcess\<close> of a child that has ended: its exit status and its two
  streams as text, the standard output first. When a stream cannot be decoded, the
  \<^verbatim>\<open>UnicodeDecodeError\<close> is raised instead, whatever the exit status is.
\<close>

definition communicate :: "env \<Rightarrow> child_exit \<Rightarrow> string + completed_process" where
  "communicate e child =
     (case text_mode e (out_bytes child) of
        Inl msg \<Rightarrow> Inl msg
      | Inr out \<Rightarrow>
          (case text_mode e (err_bytes child) of
             Inl msg \<Rightarrow> Inl msg
           | Inr err \<Rightarrow> Inr \<lparr>returncode = exit_status child, stdout = out, stderr = err\<rparr>))"

text \<open>
  \<^verbatim>\<open>subprocess.run(command, capture_output=True, text=True)\<close>: the child is launched (or
  the launch raises), runs to its end on the file system, and its output is turned into
  text.
\<close>

definition subprocess_run ::
  "env \<Rightarrow> string list \<Rightarrow> world \<Rightarrow> (string + completed_process) \<times> world" where
  "subprocess_run e command w =
     (case child_process e command (files w) of
        Inl msg \<Rightarrow> (Inl msg, w\<lparr>calls := calls w @ [Run command None]\<rparr>)
      | Inr (child, fs) \<Rightarrow>
          (let w1 = w\<lparr>files := fs, calls := calls w @ [Exited command child]\<rparr> in
           case communicate e child of
             Inl msg \<Rightarrow> (Inl msg, w1\<lparr>calls := calls w1 @ [Run command None]\<rparr>)
           | Inr result \<Rightarrow> (Inr result, w1\<lparr>calls := calls w1 @ [Run command (Some result)]\<rparr>)))"

section \<open>The pipeline\<close>

text \<open>
  Step 0, \<^verbatim>\<open>if not shutil.which("potrace")\<close>: Python's \<^verbatim>\<open>not\<close> holds of \<^verbatim>\<open>None\<close> and of
  the empty string.
\<close>

definition potrace_found :: "env \<Rightarrow> bool" where
  "potrace_found e = (case which e ''potrace'' of None \<Rightarrow> False | Some p \<Rightarrow> p \<noteq> [])"

text \<open>
  Step 1: an image of mode \<^verbatim>\<open>"RGBA"\<close> is composited over a new white RGBA image of its
  size and converted to RGB; the local variable is bound to the result. No
  \<^verbatim>\<open>try\<close> surrounds the step, so a library exception leaves the function as it is.
  An image of any other mode stays.
\<close>

definition alpha_normalize :: "env \<Rightarrow> ref \<Rightarrow> world \<Rightarrow> (exn + ref) \<times> world" where
  "alpha_normalize e pil_image w =
     (if mode (heap w ! pil_image) = ''RGBA'' then
        (case Image_new ''RGBA'' (size_wh (heap w ! pil_image)) [255, 255, 255, 255] w of
           (background, w1) \<Rightarrow>
             (case alpha_composite e background pil_image w1 of
                (Inl msg, w2) \<Rightarrow> (Inl (OtherException msg), w2)
              | (Inr composed, w2) \<Rightarrow>
                  (case convert e composed ''RGB'' w2 of
                     (Inl msg, w3) \<Rightarrow> (Inl (OtherException msg), w3)
                   | (Inr rgb, w3) \<Rightarrow> (Inr rgb, w3))))
      else (Inr pil_image, w))"

text \<open>Step 2: the image is saved as BMP into memory; a failure is wrapped.\<close>

definition encode_bmp :: "env \<Rightarrow> ref \<Rightarrow> world \<Rightarrow> (exn + bytes) \<times> world" where
  "encode_bmp e pil_image w =
     (case save e pil_image w of
        (Inl msg, w1) \<Rightarrow>
          (Inl (RuntimeError (''Failed to convert input image to BMP in memory: '' @ msg)), w1)
      | (Inr bmp_data, w1) \<Rightarrow> (Inr bmp_data, w1))"

text \<open>
  Step 3: \<^verbatim>\<open>NamedTemporaryFile(suffix=".bmp", delete=False)\<close> creates the file and the data
  is written to it. The \<^verbatim>\<open>with\<close> block stands before the \<^verbatim>\<open>try\<close>: when the write raises,
  the exception leaves the function and the file, which \<^verbatim>\<open>delete=False\<close> keeps, stays.
\<close>

definition write_bmp_file :: "env \<Rightarrow> bytes \<Rightarrow> world \<Rightarrow> (exn + path) \<times> world" where
  "write_bmp_file e bmp_data w =
     (case named_temporary_file e ''.bmp'' of
        Inl msg \<Rightarrow> (Inl (OtherException msg), w)
      | Inr bmp_file_path \<Rightarrow>
          (case file_write e bmp_file_path bmp_data of
             Some msg \<Rightarrow> (Inl (OtherException msg), w\<lparr>files := (files w)(bmp_file_path \<mapsto> [])\<rparr>)
           | None \<Rightarrow> (Inr bmp_file_path, w\<lparr>files := (files w)(bmp_file_path \<mapsto> bmp_data)\<rparr>)))"

text \<open>
  The command line. \<^verbatim>\<open>if potrace_args:\<close> holds of a list that is neither \<^verbatim>\<open>None\<close> nor
  empty; the slice assignment \<^verbatim>\<open>command[1:1] = potrace_args\<close> puts the list between the
  first element and the rest.
\<close>

definition build_command :: "path \<Rightarrow> path \<Rightarrow> string list option \<Rightarrow> string list" where
  "build_command bmp_file_path svg_file_path potrace_args =
     (let command = [''potrace'', bmp_file_path, ''-s'', ''-o'', svg_file_path] in
      case potrace_args of
        None \<Rightarrow> command
      | Some extra \<Rightarrow> if extra = [] then command else take 1 command @ extra @ drop 1 command)"

text \<open>Step 5: the SVG file is read; a failure is wrapped.\<close>

definition read_svg :: "env \<Rightarrow> path \<Rightarrow> world \<Rightarrow> exn + bytes" where
  "read_svg e svg_file_path w =
     (case files w svg_file_path of
        None \<Rightarrow> Inl (RuntimeError (''Failed to read generated SVG file: '' @ open_error e svg_file_path))
      | Some svg_data \<Rightarrow> Inr svg_data)"

text \<open>
  Step 6: the renderer gets the bytes, the scale, the output width and the output
  height, all four in every call; a failure is wrapped.
\<close>

definition render_png ::
  "env \<Rightarrow> bytes \<Rightarrow> real \<Rightarrow> int option \<Rightarrow> int option \<Rightarrow> world \<Rightarrow> (exn + bytes) \<times> world" where
  "render_png e svg_data sc ow oh w =
     (let args = \<lparr>bytestring = svg_data, scale = sc, output_width = ow, output_height = oh\<rparr>;
          w1 = w\<lparr>calls := calls w @ [Svg2Png args]\<rparr>
      in case svg2png e args of
           Inl msg \<Rightarrow>
             (Inl (RuntimeError (''Failed to convert SVG to PNG using CairoSVG: '' @ msg)), w1)
         | Inr png_bytes \<Rightarrow> (Inr png_bytes, w1))"

text \<open>
  Step 7: the PNG is opened, loaded and converted to RGBA; the converted image is
  returned. One \<^verbatim>\<open>try\<close> surrounds the three calls and wraps a failure of any of them.
  The \<^verbatim>\<open>return output_image\<close> that follows it in the source is never reached.
\<close>

definition open_png :: "env \<Rightarrow> bytes \<Rightarrow> world \<Rightarrow> (exn + ref) \<times> world" where
  "open_png e png_bytes w =
     (case Image_open e png_bytes w of
        (Inl msg, w1) \<Rightarrow>
          (Inl (RuntimeError (''Failed to open generated PNG as PIL Image: '' @ msg)), w1)
      | (Inr output_image, w1) \<Rightarrow>
          (case load e output_image w1 of
             (Inl msg, w2) \<Rightarrow>
               (Inl (RuntimeError (''Failed to open generated PNG as PIL Image: '' @ msg)), w2)
           | (Inr _, w2) \<Rightarrow>
               (case convert e output_image ''RGBA'' w2 of
                  (Inl msg, w3) \<Rightarrow>
                    (Inl (RuntimeError (''Failed to open generated PNG as PIL Image: '' @ msg)), w3)
                | (Inr rgba, w3) \<Rightarrow> (Inr rgba, w3))))"

text \<open>
  The body of the \<^verbatim>\<open>try\<close> (steps 4 to 7). It returns its outcome, the value of
  \<^verbatim>\<open>svg_file_path\<close> when it is left (\<^verbatim>\<open>None\<close> until \<^verbatim>\<open>mkstemp\<close> has returned) and the
  world. An exception of \<^verbatim>\<open>mkstemp\<close> or of \<^verbatim>\<open>subprocess.run\<close> is not wrapped.
\<close>

definition try_body ::
  "env \<Rightarrow> path \<Rightarrow> string list option \<Rightarrow> real \<Rightarrow> int option \<Rightarrow> int option \<Rightarrow> world
   \<Rightarrow> (exn + ref) \<times> path option \<times> world" where
  "try_body e bmp_file_path potrace_args sc ow oh w =
     (case mkstemp e ''.svg'' of
        Inl msg \<Rightarrow> (Inl (OtherException msg), None, w)
      | Inr svg_file_path \<Rightarrow>
          (let w1 = w\<lparr>files := (files w)(svg_file_path \<mapsto> [])\<rparr>;
               command = build_command bmp_file_path svg_file_path potrace_args
           in case subprocess_run e command w1 of
                (Inl msg, w2) \<Rightarrow> (Inl (OtherException msg), Some svg_file_path, w2)
              | (Inr result, w2) \<Rightarrow>
                  (if returncode result \<noteq> 0
                   then (Inl (RuntimeError (''Potrace execution failed: '' @ stderr result)),
                         Some svg_file_path, w2)
                   else (case read_svg e svg_file_path w2 of
                           Inl x \<Rightarrow> (Inl x, Some svg_file_path, w2)
                         | Inr svg_data \<Rightarrow>
                             (case render_png e svg_data sc ow oh w2 of
                                (Inl x, w3) \<Rightarrow> (Inl x, Some svg_file_path, w3)
                              | (Inr png_bytes, w3) \<Rightarrow>
                                  (case open_png e png_bytes w3 of
                                     (res, w4) \<Rightarrow> (res, Some svg_file_path, w4)))))))"

text \<open>
  The \<^verbatim>\<open>finally\<close> block. \<^verbatim>\<open>os.remove\<close> deletes the file or raises \<^verbatim>\<open>OSError\<close>, which
  \<^verbatim>\<open>except OSError: pass\<close> drops, leaving the file. \<^verbatim>\<open>if svg_file_path and ...\<close> holds of
  a path that is neither \<^verbatim>\<open>None\<close> nor empty.
\<close>

definition os_remove :: "env \<Rightarrow> path \<Rightarrow> world \<Rightarrow> world" where
  "os_remove e p w = (if os_remove_fails e p then w else w\<lparr>files := (files w)(p := None)\<rparr>)"

definition cleanup :: "env \<Rightarrow> path \<Rightarrow> path option \<Rightarrow> world \<Rightarrow> world" where
  "cleanup e bmp_file_path svg_file_path w =
     (let w1 = (if files w bmp_file_path \<noteq> None then os_remove e bmp_file_path w else w) in
      case svg_file_path of
        None \<Rightarrow> w1
      | Some svg \<Rightarrow> if svg \<noteq> [] \<and> files w1 svg \<noteq> None then os_remove e svg w1 else w1)"

text \<open>
  The function. \<open>scale_kw\<close> is \<open>None\<close> when the caller leaves the keyword \<^verbatim>\<open>scale\<close> out, and
  the parameter then has its default \<^verbatim>\<open>1.0\<close>; \<^verbatim>\<open>potrace_args\<close>, \<^verbatim>\<open>output_width\<close> and
  \<^verbatim>\<open>output_height\<close> default to \<^verbatim>\<open>None\<close>. The result is the exception raised or the
  reference returned, and the world the call leaves.
\<close>

definition upscale_with_vectorization ::
  "env \<Rightarrow> ref \<Rightarrow> string list option \<Rightarrow> real option \<Rightarrow> int option \<Rightarrow> int option \<Rightarrow> world
   \<Rightarrow> (exn + ref) \<times> world" where
  "upscale_with_vectorization e pil_image potrace_args scale_kw ow oh w =
     (let sc = (case scale_kw of None \<Rightarrow> 1 | Some s \<Rightarrow> s) in
      if \<not> potrace_found e
      then (Inl (RuntimeError (''Potrace is not installed or not found in PATH. '' @
                               ''Please install Potrace and ensure it is accessible.'')), w)
      else (case alpha_normalize e pil_image w of
              (Inl x, w1) \<Rightarrow> (Inl x, w1)
            | (Inr im, w1) \<Rightarrow>
                (case encode_bmp e im w1 of
                   (Inl x, w2) \<Rightarrow> (Inl x, w2)
                 | (Inr bmp_data, w2) \<Rightarrow>
                     (case write_bmp_file e bmp_data w2 of
                        (Inl x, w3) \<Rightarrow> (Inl x, w3)
                      | (Inr bmp_file_path, w3) \<Rightarrow>
                          (case try_body e bmp_file_path potrace_args sc ow oh w3 of
                             (res, svg_file_path, w4) \<Rightarrow>
                               (res, cleanup e bmp_file_path svg_file_path w4))))))"

section \<open>A sample run\<close>

text \<open>
  One concrete world and environment, for evaluating the definitions: a 2 by 1 RGBA
  image with a transparent and an opaque pixel, and an environment in which every
  collaborator succeeds (the BMP encoder on the modes Pillow's BMP writer knows, the child
  process by writing its output file, the last argument; the decoder on every byte string
  without the byte 0xFF, which no UTF-8 text contains).
\<close>

definition sample_image :: image where
  "sample_image = \<lparr>mode = ''RGBA'', size_wh = (2, 1),
                    pixels = [[10, 20, 30, 0], [10, 20, 30, 255]], loaded = True\<rparr>"

definition sample_world :: world where
  "sample_world = \<lparr>files = Map.empty, heap = [sample_image], calls = []\<rparr>"

definition sample_env :: env where
  "sample_env =
     \<lparr>which = (\<lambda>name. Some (''/usr/bin/'' @ name)),
      load_error = (\<lambda>im. None),
      composite_lib = (\<lambda>dst src. Inl ''image has wrong mode''),
      convert_lib = (\<lambda>m1 m2 px. Inl ''conversion not supported''),
      bmp_save = (\<lambda>im. if mode im \<in> set [''1'', ''L'', ''P'', ''RGB'', ''RGBA''] then Inr ''BM''
                       else Inl (''cannot write mode '' @ mode im @ '' as BMP'')),
      named_temporary_file = (\<lambda>suffix. Inr (''/tmp/tmpin'' @ suffix)),
      file_write = (\<lambda>p data. None),
      mkstemp = (\<lambda>suffix. Inr (''/tmp/tmpout'' @ suffix)),
      child_process = (\<lambda>command fs.
         Inr (\<lparr>exit_status = 0, out_bytes = [], err_bytes = []\<rparr>, fs(last command \<mapsto> ''<svg/>''))),
      decode = (\<lambda>data. if CHR 0xFF \<in> set data then Inl ''invalid start byte'' else Inr data),
      open_error = (\<lambda>p. ''No such file or directory''),
      svg2png = (\<lambda>args. Inr ''PNG''),
      image_open = (\<lambda>data. Inr \<lparr>mode = ''RGBA'', size_wh = (1, 1), pixels = [[1, 2, 3, 255]], loaded = False\<rparr>),
      os_remove_fails = (\<lambda>p. False)\<rparr>"

text \<open>
  A second world, whose only image has the mode LA: 8-bit grey with an alpha channel, one
  pixel of grey 200 and alpha 128.
\<close>

definition la_image :: image where
  "la_image = \<lparr>mode = ''LA'', size_wh = (1, 1), pixels = [[200, 128]], loaded = True\<rparr>"

definition la_world :: world where
  "la_world = \<lparr>files = Map.empty, heap = [la_image], calls = []\<rparr>"

section \<open>Notions for the statements\<close>

text \<open>
  Two image objects have the same content when mode, size and pixel buffer agree (the
  load flag is left out: loading decodes the buffer, it does not change it). A world
  keeps the heap of an earlier one when every object of the earlier heap is still there,
  under its reference, with the same content.
\<close>

definition same_content :: "image \<Rightarrow> image \<Rightarrow> bool" where
  "same_content a b = (mode a = mode b \<and> size_wh a = size_wh b \<and> pixels a = pixels b)"

definition heap_kept :: "world \<Rightarrow> world \<Rightarrow> bool" where
  "heap_kept w w' =
     (length (heap w) \<le> length (heap w') \<and>
      list_all2 same_content (heap w) (take (length (heap w)) (heap w')))"

text \<open>The external calls made between an earlier world and a later one.\<close>

definition new_calls :: "world \<Rightarrow> world \<Rightarrow> event list" where
  "new_calls w w' = drop (length (calls w)) (calls w')"

section \<open>What each operation leaves unchanged\<close>

lemma heap_kept_refl: "heap_kept w w"
  by (simp add: heap_kept_def list_all2_refl same_content_def)

lemma heap_kept_nth:
  "heap_kept w w' \<Longrightarrow> r < length (heap w) \<Longrightarrow> same_content (heap w ! r) (heap w' ! r)"
  by (auto simp: heap_kept_def dest: list_all2_nthD)

lemma same_content_trans: "same_content a b \<Longrightarrow> same_content b c \<Longrightarrow> same_content a c"
  by (simp add: same_content_def)

lemma heap_keptI:
  assumes "length (heap w) \<le> length (heap w')"
    and "\<And>r. r < length (heap w) \<Longrightarrow> same_content (heap w ! r) (heap w' ! r)"
  shows "heap_kept w w'"
  using assms by (simp add: heap_kept_def list_all2_conv_all_nth)

lemma heap_kept_length: "heap_kept w w' \<Longrightarrow> length (heap w) \<le> length (heap w')"
  by (simp add: heap_kept_def)

lemma heap_kept_trans: "heap_kept a b \<Longrightarrow> heap_kept b c \<Longrightarrow> heap_kept a c"
proof (rule heap_keptI)
  assume ab: "heap_kept a b" and bc: "heap_kept b c"
  show "length (heap a) \<le> length (heap c)"
    using heap_kept_length [OF ab] heap_kept_length [OF bc] by simp
  fix r assume r: "r < length (heap a)"
  then have "r < length (heap b)" using heap_kept_length [OF ab] by simp
  then show "same_content (heap a ! r) (heap c ! r)"
    using heap_kept_nth [OF ab r] heap_kept_nth [OF bc] same_content_trans by blast
qed

lemma heap_kept_cong: "heap w' = heap w'' \<Longrightarrow> heap_kept w w' = heap_kept w w''"
  by (simp add: heap_kept_def)

lemma alloc_world:
  "alloc im w = (r, w') \<Longrightarrow>
     r = length (heap w) \<and> heap w' = heap w @ [im] \<and> files w' = files w \<and> calls w' = calls w"
  by (auto simp: alloc_def)

lemma alloc_kept: "alloc im w = (r, w') \<Longrightarrow> heap_kept w w'"
  by (auto simp: alloc_def heap_kept_def list_all2_refl same_content_def)

lemma load_world:
  "load e r w = (x, w') \<Longrightarrow> files w' = files w \<and> calls w' = calls w \<and> length (heap w') = length (heap w)"
  by (auto simp: load_def Let_def split: if_splits option.splits)

lemma nth_update_any: "(xs[r := x]) ! i = (if i = r \<and> r < length xs then x else xs ! i)"
  by (cases "r < length xs") (auto simp: nth_list_update list_update_beyond not_less)

lemma load_kept: "load e r w = (x, w') \<Longrightarrow> heap_kept w w'"
  by (rule heap_keptI)
     (auto simp: load_def Let_def same_content_def nth_update_any split: if_splits option.splits)

lemma load_loaded:
  "load e r w = (Inr u, w') \<Longrightarrow> r < length (heap w) \<Longrightarrow> loaded (heap w' ! r)"
  by (auto simp: load_def Let_def split: if_splits option.splits)

lemma load_keeps_loaded:
  "load e r w = (x, w') \<Longrightarrow> loaded (heap w ! i) \<Longrightarrow> loaded (heap w' ! i)"
  by (auto simp: load_def Let_def nth_update_any split: if_splits option.splits)

lemma Image_new_world:
  "Image_new m sz c w = (r, w') \<Longrightarrow>
     r = length (heap w) \<and> files w' = files w \<and> calls w' = calls w \<and>
     heap w' = heap w @ [\<lparr>mode = m, size_wh = sz, pixels = replicate (fst sz * snd sz) c, loaded = True\<rparr>]"
  by (auto simp: Image_new_def alloc_def)

lemma Image_new_kept: "Image_new m sz c w = (r, w') \<Longrightarrow> heap_kept w w'"
  by (simp add: Image_new_def alloc_kept)

lemma alpha_composite_world:
  "alpha_composite e a b w = (x, w') \<Longrightarrow> files w' = files w \<and> calls w' = calls w"
  by (auto simp: alpha_composite_def Let_def split: prod.splits sum.splits if_splits
           dest!: load_world alloc_world)

lemma alpha_composite_kept: "alpha_composite e a b w = (x, w') \<Longrightarrow> heap_kept w w'"
  by (auto simp: alpha_composite_def Let_def split: prod.splits sum.splits if_splits
           intro: heap_kept_trans dest!: load_kept alloc_kept)

lemma convert_world:
  "convert e r m w = (x, w') \<Longrightarrow> files w' = files w \<and> calls w' = calls w"
  by (auto simp: convert_def Let_def split: prod.splits sum.splits if_splits
           dest!: load_world alloc_world)

lemma convert_kept: "convert e r m w = (x, w') \<Longrightarrow> heap_kept w w'"
  by (auto simp: convert_def Let_def split: prod.splits sum.splits if_splits
           intro: heap_kept_trans dest!: load_kept alloc_kept)

lemma Image_open_world:
  "Image_open e d w = (x, w') \<Longrightarrow> files w' = files w \<and> calls w' = calls w"
  by (auto simp: Image_open_def split: prod.splits sum.splits dest!: alloc_world)

lemma Image_open_kept: "Image_open e d w = (x, w') \<Longrightarrow> heap_kept w w'"
  by (auto simp: Image_open_def heap_kept_refl split: prod.splits sum.splits dest!: alloc_kept)

lemma save_world: "save e r w = (x, w') \<Longrightarrow> files w' = files w"
  by (auto simp: save_def Let_def split: prod.splits sum.splits dest!: load_world)

lemma save_kept: "save e r w = (x, w') \<Longrightarrow> heap_kept w w'"
  by (auto simp: save_def Let_def heap_kept_def split: prod.splits sum.splits dest!: load_kept)


lemma alpha_normalize_world:
  "alpha_normalize e r w = (x, w') \<Longrightarrow> files w' = files w \<and> calls w' = calls w"
  by (auto simp: alpha_normalize_def split: prod.splits sum.splits if_splits
           dest!: Image_new_world alpha_composite_world convert_world)

lemma alpha_normalize_kept: "alpha_normalize e r w = (x, w') \<Longrightarrow> heap_kept w w'"
  by (auto simp: alpha_normalize_def heap_kept_refl split: prod.splits sum.splits if_splits
           dest!: Image_new_kept alpha_composite_kept convert_kept intro: heap_kept_trans)

lemma encode_bmp_world: "encode_bmp e r w = (x, w') \<Longrightarrow> files w' = files w"
  by (auto simp: encode_bmp_def split: prod.splits sum.splits dest!: save_world)

lemma encode_bmp_kept: "encode_bmp e r w = (x, w') \<Longrightarrow> heap_kept w w'"
  by (auto simp: encode_bmp_def split: prod.splits sum.splits dest!: save_kept)

lemma write_bmp_file_world:
  "write_bmp_file e d w = (x, w') \<Longrightarrow> heap w' = heap w \<and> calls w' = calls w"
  by (auto simp: write_bmp_file_def split: sum.splits option.splits)

lemma render_png_world:
  "render_png e d sc ow oh w = (x, w') \<Longrightarrow> heap w' = heap w \<and> files w' = files w"
  by (auto simp: render_png_def Let_def split: sum.splits)

lemma open_png_world:
  "open_png e d w = (x, w') \<Longrightarrow> files w' = files w \<and> calls w' = calls w"
  by (auto simp: open_png_def split: prod.splits sum.splits
           dest!: Image_open_world load_world convert_world)

lemma open_png_kept: "open_png e d w = (x, w') \<Longrightarrow> heap_kept w w'"
  by (auto simp: open_png_def split: prod.splits sum.splits
           dest!: Image_open_kept load_kept convert_kept intro: heap_kept_trans)

lemma subprocess_run_world: "subprocess_run e command w = (x, w') \<Longrightarrow> heap w' = heap w"
  by (auto simp: subprocess_run_def Let_def split: sum.splits prod.splits)

lemma try_body_kept:
  "try_body e bmp args sc ow oh w = (res, svg, w') \<Longrightarrow> heap_kept w w'"
  by (auto simp: try_body_def Let_def heap_kept_def list_all2_refl same_content_def
           split: prod.splits sum.splits if_splits
           dest!: subprocess_run_world render_png_world open_png_kept)

lemma cleanup_world: "heap (cleanup e bmp svg w) = heap w \<and> calls (cleanup e bmp svg w) = calls w"
  by (simp add: cleanup_def os_remove_def Let_def split: option.splits)

lemma heap_kept_left: "heap a = heap a' \<Longrightarrow> heap_kept a b \<Longrightarrow> heap_kept a' b"
  by (simp add: heap_kept_def)

lemma heap_kept_right: "heap b = heap b' \<Longrightarrow> heap_kept a b \<Longrightarrow> heap_kept a b'"
  by (simp add: heap_kept_def)

section \<open>The paths through the function\<close>

text \<open>
  A call ends in one of five ways: the pre-flight check fails, step 1, 2 or 3 raises, or
  the \<^verbatim>\<open>try\<close> block is entered and the \<^verbatim>\<open>finally\<close> block runs after it.
\<close>

lemma upscale_cases [consumes 1, case_names not_found normalize_failed encode_failed write_failed entered]:
  assumes "upscale_with_vectorization e pil_image potrace_args scale_kw ow oh w = (res, w')"
  obtains
    "\<not> potrace_found e" and "w' = w" and
      "res = Inl (RuntimeError
         ''Potrace is not installed or not found in PATH. Please install Potrace and ensure it is accessible.'')"
  | x where "potrace_found e" and "alpha_normalize e pil_image w = (Inl x, w')" and "res = Inl x"
  | im w1 x where "potrace_found e" and "alpha_normalize e pil_image w = (Inr im, w1)"
      and "encode_bmp e im w1 = (Inl x, w')" and "res = Inl x"
  | im w1 bmp_data w2 x where "potrace_found e" and "alpha_normalize e pil_image w = (Inr im, w1)"
      and "encode_bmp e im w1 = (Inr bmp_data, w2)"
      and "write_bmp_file e bmp_data w2 = (Inl x, w')" and "res = Inl x"
  | im w1 bmp_data w2 bmp w3 svg w4 where "potrace_found e"
      and "alpha_normalize e pil_image w = (Inr im, w1)"
      and "encode_bmp e im w1 = (Inr bmp_data, w2)"
      and "write_bmp_file e bmp_data w2 = (Inr bmp, w3)"
      and "try_body e bmp potrace_args (case scale_kw of None \<Rightarrow> 1 | Some s \<Rightarrow> s) ow oh w3 = (res, svg, w4)"
      and "w' = cleanup e bmp svg w4"
  using assms
  by (auto simp: upscale_with_vectorization_def Let_def split: if_splits prod.splits sum.splits)

lemma upscale_kept:
  assumes "upscale_with_vectorization e pil_image potrace_args scale_kw ow oh w = (res, w')"
  shows "heap_kept w w'"
  using assms
proof (cases rule: upscale_cases)
  case not_found
  then show ?thesis by (simp add: heap_kept_refl)
next
  case (normalize_failed x)
  then show ?thesis by (simp add: alpha_normalize_kept)
next
  case (encode_failed im w1 x)
  then show ?thesis by (blast intro: heap_kept_trans alpha_normalize_kept encode_bmp_kept)
next
  case (write_failed im w1 bmp_data w2 x)
  have "heap_kept w w2"
    using write_failed by (blast intro: heap_kept_trans alpha_normalize_kept encode_bmp_kept)
  moreover have "heap w2 = heap w'" using write_failed(4) by (simp add: write_bmp_file_world)
  ultimately show ?thesis by (blast intro: heap_kept_right)
next
  case (entered im w1 bmp_data w2 bmp w3 svg w4)
  have "heap_kept w w2"
    using entered by (blast intro: heap_kept_trans alpha_normalize_kept encode_bmp_kept)
  moreover have "heap w3 = heap w2" using entered(4) by (simp add: write_bmp_file_world)
  moreover have "heap_kept w3 w4" using entered(5) by (rule try_body_kept)
  moreover have "heap w4 = heap w'" using entered(6) by (simp add: cleanup_world)
  ultimately show ?thesis by (blast intro: heap_kept_trans heap_kept_left heap_kept_right)
qed


section \<open>Evaluating a concrete run\<close>

text \<open>The definitions to unfold when the function is run on a concrete world.\<close>

lemmas pipeline_defs = upscale_with_vectorization_def potrace_found_def
    alpha_normalize_def Image_new_def alloc_def alpha_composite_def load_def convert_def convert_pixels_def
    encode_bmp_def save_def write_bmp_file_def
    try_body_def build_command_def read_svg_def render_png_def open_png_def Image_open_def cleanup_def os_remove_def
    subprocess_run_def communicate_def text_mode_def

lemma replicate_2: "replicate 2 x = [x, x]"
  by (simp add: numeral_2_eq_2)

section \<open>The pre-flight check\<close>

text \<open>
  C3. When \<^verbatim>\<open>shutil.which("potrace")\<close> finds nothing, the function raises its
  "Potrace is not installed" error at once: the world it leaves is the world it was
  called in, so no temp file has been created, no image object allocated and no
  external call made.
\<close>

theorem tool_not_found_before_any_work:
  assumes "which e ''potrace'' = None"
  shows "upscale_with_vectorization e pil_image potrace_args scale_kw ow oh w =
           (Inl (RuntimeError
              ''Potrace is not installed or not found in PATH. Please install Potrace and ensure it is accessible.''), w)"
  using assms by (simp add: upscale_with_vectorization_def potrace_found_def)

theorem tool_not_found_before_any_work_witness:
  "upscale_with_vectorization (sample_env\<lparr>which := (\<lambda>name. None)\<rparr>) 0 None None None None sample_world =
           (Inl (RuntimeError
              ''Potrace is not installed or not found in PATH. Please install Potrace and ensure it is accessible.''), sample_world)"
  using tool_not_found_before_any_work
          [of "sample_env\<lparr>which := (\<lambda>name. None)\<rparr>" 0 None None None None sample_world]
  by simp

section \<open>The caller's image\<close>

text \<open>
  C10. The function never writes the mode, the size or the pixel buffer of an image
  object that exists when it is called, the caller's image among them: step 1 allocates
  new objects and binds the local variable to the result. This holds for every outcome
  of the call, and the reference stays valid.
\<close>

theorem caller_image_not_mutated:
  assumes "r < length (heap w)"
  shows "r < length (heap (snd (upscale_with_vectorization e pil_image potrace_args scale_kw ow oh w))) \<and>
         mode (heap (snd (upscale_with_vectorization e pil_image potrace_args scale_kw ow oh w)) ! r)
           = mode (heap w ! r) \<and>
         size_wh (heap (snd (upscale_with_vectorization e pil_image potrace_args scale_kw ow oh w)) ! r)
           = size_wh (heap w ! r) \<and>
         pixels (heap (snd (upscale_with_vectorization e pil_image potrace_args scale_kw ow oh w)) ! r)
           = pixels (heap w ! r)"
proof -
  obtain res w' where run: "upscale_with_vectorization e pil_image potrace_args scale_kw ow oh w = (res, w')"
    by (cases "upscale_with_vectorization e pil_image potrace_args scale_kw ow oh w")
  have kept: "heap_kept w w'" using run by (rule upscale_kept)
  have "same_content (heap w ! r) (heap w' ! r)" using kept assms by (rule heap_kept_nth)
  moreover have "r < length (heap w')" using heap_kept_length [OF kept] assms by simp
  ultimately show ?thesis using run by (simp add: same_content_def)
qed

theorem caller_image_not_mutated_witness:
  "mode (heap (snd (upscale_with_vectorization sample_env 0 None None None None sample_world)) ! 0) = ''RGBA'' \<and>
   size_wh (heap (snd (upscale_with_vectorization sample_env 0 None None None None sample_world)) ! 0) = (2, 1) \<and>
   pixels (heap (snd (upscale_with_vectorization sample_env 0 None None None None sample_world)) ! 0)
     = [[10, 20, 30, 0], [10, 20, 30, 255]]"
  using caller_image_not_mutated [of 0 sample_world sample_env 0 None None None None]
  by (simp add: sample_world_def sample_image_def)

section \<open>The returned image\<close>

lemma convert_result:
  "convert e r m w = (Inr r', w') \<Longrightarrow>
     r' = length (heap w) \<and> length (heap w') = Suc r' \<and> mode (heap w' ! r') = m \<and> loaded (heap w' ! r')"
  by (auto simp: convert_def Let_def alloc_def nth_append split: prod.splits sum.splits dest!: load_world)

lemma convert_keeps_loaded:
  assumes "convert e r m w = (x, w')" and "i < length (heap w)" and "loaded (heap w ! i)"
  shows "loaded (heap w' ! i)"
proof -
  obtain y w1 where ld: "load e r w = (y, w1)" by (cases "load e r w")
  have l1: "length (heap w1) = length (heap w)" using load_world [OF ld] by simp
  have k1: "loaded (heap w1 ! i)" using ld assms(3) by (rule load_keeps_loaded)
  have "heap w' = heap w1 \<or> (\<exists>im. heap w' = heap w1 @ [im])"
    using assms(1) ld by (auto simp: convert_def Let_def alloc_def split: sum.splits)
  then show ?thesis using k1 l1 assms(2) by (auto simp: nth_append)
qed

lemma Image_open_result:
  "Image_open e d w = (Inr r, w') \<Longrightarrow> r = length (heap w) \<and> length (heap w') = Suc r"
  by (auto simp: Image_open_def alloc_def split: sum.splits)

lemma open_png_result:
  assumes "open_png e d w = (Inr r, w')"
  shows "r = Suc (length (heap w)) \<and> length (heap w') = Suc r \<and> mode (heap w' ! r) = ''RGBA'' \<and>
         loaded (heap w' ! r) \<and> loaded (heap w' ! (r - 1))"
proof -
  from assms obtain out w1 u w2 where
    op: "Image_open e d w = (Inr out, w1)" and ld: "load e out w1 = (Inr u, w2)"
    and cv: "convert e out ''RGBA'' w2 = (Inr r, w')"
    by (auto simp: open_png_def split: prod.splits sum.splits)
  have out: "out = length (heap w)" "length (heap w1) = Suc out" using Image_open_result [OF op] by simp_all
  have l2: "length (heap w2) = Suc out" using load_world [OF ld] out by simp
  have ld2: "loaded (heap w2 ! out)" using load_loaded [OF ld] out by simp
  have r: "r = Suc out" "length (heap w') = Suc r" "mode (heap w' ! r) = ''RGBA''" "loaded (heap w' ! r)"
    using convert_result [OF cv] l2 by auto
  have "loaded (heap w' ! out)"
    using cv _ ld2 by (rule convert_keeps_loaded) (simp add: l2)
  then show ?thesis using r out by simp
qed

lemma try_body_result:
  "try_body e bmp args sc ow oh w = (Inr r, svg, w') \<Longrightarrow>
     length (heap w) < r \<and> length (heap w') = Suc r \<and> mode (heap w' ! r) = ''RGBA'' \<and>
     loaded (heap w' ! r) \<and> loaded (heap w' ! (r - 1))"
  by (auto simp: try_body_def Let_def split: prod.splits sum.splits if_splits
           dest!: subprocess_run_world render_png_world open_png_result)

text \<open>
  C6. Whenever the function returns, what it returns is a new image object (its reference
  is not one of the heap it was called with) of mode RGBA whose pixel data is loaded,
  whatever the mode of the input image and whatever the mode of the image decoded from
  the PNG. The object decoded from the PNG, allocated just before it, has been loaded too.
\<close>

theorem returned_image_is_loaded_RGBA:
  assumes "fst (upscale_with_vectorization e pil_image potrace_args scale_kw ow oh w) = Inr r"
  shows "length (heap w) < r \<and>
         r < length (heap (snd (upscale_with_vectorization e pil_image potrace_args scale_kw ow oh w))) \<and>
         mode (heap (snd (upscale_with_vectorization e pil_image potrace_args scale_kw ow oh w)) ! r) = ''RGBA'' \<and>
         loaded (heap (snd (upscale_with_vectorization e pil_image potrace_args scale_kw ow oh w)) ! r) \<and>
         loaded (heap (snd (upscale_with_vectorization e pil_image potrace_args scale_kw ow oh w)) ! (r - 1))"
proof -
  obtain res w' where run: "upscale_with_vectorization e pil_image potrace_args scale_kw ow oh w = (res, w')"
    by (cases "upscale_with_vectorization e pil_image potrace_args scale_kw ow oh w")
  with assms have res: "res = Inr r" by simp
  from run show ?thesis
  proof (cases rule: upscale_cases)
    case (entered im w1 bmp_data w2 bmp w3 svg w4)
    have "heap_kept w w2"
      using entered by (blast intro: heap_kept_trans alpha_normalize_kept encode_bmp_kept)
    then have "length (heap w) \<le> length (heap w3)"
      using entered(4) by (auto dest!: heap_kept_length write_bmp_file_world)
    moreover have "length (heap w3) < r \<and> length (heap w4) = Suc r \<and> mode (heap w4 ! r) = ''RGBA'' \<and>
         loaded (heap w4 ! r) \<and> loaded (heap w4 ! (r - 1))"
      using entered(5) res by (auto dest: try_body_result)
    moreover have "heap w' = heap w4" using entered(6) by (simp add: cleanup_world)
    ultimately show ?thesis using run by simp
  qed (use res in simp_all)
qed

theorem returned_image_is_loaded_RGBA_witness:
  "(1::nat) < 5 \<and>
   5 < length (heap (snd (upscale_with_vectorization sample_env 0 None None None None sample_world))) \<and>
   mode (heap (snd (upscale_with_vectorization sample_env 0 None None None None sample_world)) ! 5) = ''RGBA'' \<and>
   loaded (heap (snd (upscale_with_vectorization sample_env 0 None None None None sample_world)) ! 5) \<and>
   loaded (heap (snd (upscale_with_vectorization sample_env 0 None None None None sample_world)) ! 4)"
proof -
  have run: "fst (upscale_with_vectorization sample_env 0 None None None None sample_world) = Inr 5"
    by (simp add: pipeline_defs sample_env_def sample_world_def sample_image_def Let_def)
  show ?thesis
    using returned_image_is_loaded_RGBA [OF run] by (simp add: sample_world_def)
qed

section \<open>Cleanup\<close>

text \<open>No step before the \<^verbatim>\<open>finally\<close> block asks whether a removal fails.\<close>

lemma load_ignores_remove: "load (e\<lparr>os_remove_fails := rf\<rparr>) r w = load e r w"
  by (simp add: load_def Let_def cong: if_cong option.case_cong)

lemma alpha_normalize_ignores_remove:
  "alpha_normalize (e\<lparr>os_remove_fails := rf\<rparr>) r w = alpha_normalize e r w"
  by (simp add: alpha_normalize_def alpha_composite_def convert_def convert_pixels_def
        load_ignores_remove Let_def cong: if_cong sum.case_cong prod.case_cong)

lemma encode_bmp_ignores_remove:
  "encode_bmp (e\<lparr>os_remove_fails := rf\<rparr>) r w = encode_bmp e r w"
  by (simp add: encode_bmp_def save_def load_ignores_remove Let_def cong: sum.case_cong prod.case_cong)

lemma write_bmp_file_ignores_remove:
  "write_bmp_file (e\<lparr>os_remove_fails := rf\<rparr>) d w = write_bmp_file e d w"
  by (simp add: write_bmp_file_def cong: sum.case_cong option.case_cong)

lemma open_png_ignores_remove:
  "open_png (e\<lparr>os_remove_fails := rf\<rparr>) d w = open_png e d w"
  by (simp add: open_png_def Image_open_def convert_def convert_pixels_def load_ignores_remove
        Let_def cong: if_cong sum.case_cong prod.case_cong)

lemma subprocess_run_ignores_remove:
  "subprocess_run (e\<lparr>os_remove_fails := rf\<rparr>) command w = subprocess_run e command w"
  by (simp add: subprocess_run_def communicate_def text_mode_def Let_def
        cong: sum.case_cong prod.case_cong)

lemma try_body_ignores_remove:
  "try_body (e\<lparr>os_remove_fails := rf\<rparr>) bmp args sc ow oh w = try_body e bmp args sc ow oh w"
  by (simp add: try_body_def read_svg_def render_png_def open_png_ignores_remove
        subprocess_run_ignores_remove
        Let_def cong: if_cong sum.case_cong prod.case_cong option.case_cong)

lemma potrace_found_ignores_remove: "potrace_found (e\<lparr>os_remove_fails := rf\<rparr>) = potrace_found e"
  by (simp add: potrace_found_def)

text \<open>
  C9. Whether removals fail has no influence on what the call gives back: with any
  behaviour \<open>rf\<close> of \<^verbatim>\<open>os.remove\<close> the outcome (the exception raised or the reference
  returned), the image objects and the external calls are those of the same call in an
  environment that differs in nothing but the removals. So a removal that raises is never
  what the caller sees, after a success as after a failure of a stage.
\<close>

theorem cleanup_failure_never_changes_outcome:
  "fst (upscale_with_vectorization (e\<lparr>os_remove_fails := rf\<rparr>) pil_image potrace_args scale_kw ow oh w)
     = fst (upscale_with_vectorization e pil_image potrace_args scale_kw ow oh w) \<and>
   heap (snd (upscale_with_vectorization (e\<lparr>os_remove_fails := rf\<rparr>) pil_image potrace_args scale_kw ow oh w))
     = heap (snd (upscale_with_vectorization e pil_image potrace_args scale_kw ow oh w)) \<and>
   calls (snd (upscale_with_vectorization (e\<lparr>os_remove_fails := rf\<rparr>) pil_image potrace_args scale_kw ow oh w))
     = calls (snd (upscale_with_vectorization e pil_image potrace_args scale_kw ow oh w))"
  by (simp add: upscale_with_vectorization_def potrace_found_ignores_remove
        alpha_normalize_ignores_remove encode_bmp_ignores_remove write_bmp_file_ignores_remove
        try_body_ignores_remove cleanup_world Let_def split: prod.splits sum.splits
      cong: if_cong)


theorem cleanup_failure_never_changes_outcome_witness:
  "fst (upscale_with_vectorization (sample_env\<lparr>os_remove_fails := (\<lambda>p. True)\<rparr>) 0 None None None None
          sample_world) = Inr 5"
proof -
  have run: "fst (upscale_with_vectorization sample_env 0 None None None None sample_world) = Inr 5"
    by (simp add: pipeline_defs sample_env_def sample_world_def sample_image_def Let_def)
  show ?thesis
    using cleanup_failure_never_changes_outcome
            [where e = sample_env and rf = "\<lambda>p. True" and pil_image = 0 and potrace_args = None
               and scale_kw = None and ow = None and oh = None and w = sample_world] run
    by simp
qed

section \<open>Temporary files\<close>

lemma cleanup_removes_bmp:
  "\<not> os_remove_fails e bmp \<Longrightarrow> files (cleanup e bmp svg w) bmp = None"
  by (auto simp: cleanup_def os_remove_def Let_def split: option.splits)

lemma cleanup_removes_svg:
  "\<not> os_remove_fails e p \<Longrightarrow> p \<noteq> [] \<Longrightarrow> files (cleanup e bmp (Some p) w) p = None"
  by (auto simp: cleanup_def os_remove_def Let_def)

lemma cleanup_keeps_absent:
  "files w p = None \<Longrightarrow> files (cleanup e bmp svg w) p = None"
  by (auto simp: cleanup_def os_remove_def Let_def split: option.splits)

lemma try_body_svg_path:
  "try_body e bmp args sc ow oh w = (res, svg, w') \<Longrightarrow>
     (case svg of None \<Rightarrow> w' = w | Some p \<Rightarrow> mkstemp e ''.svg'' = Inr p)"
  by (auto simp: try_body_def Let_def split: prod.splits sum.splits if_splits)

lemma write_bmp_file_path:
  "write_bmp_file e d w = (Inr bmp, w') \<Longrightarrow>
     named_temporary_file e ''.bmp'' = Inr bmp \<and> files w' = (files w)(bmp \<mapsto> d)"
  by (auto simp: write_bmp_file_def split: sum.splits option.splits)

lemma write_bmp_file_failed:
  "write_bmp_file e d w = (Inl x, w') \<Longrightarrow>
     (case named_temporary_file e ''.bmp'' of
        Inl msg \<Rightarrow> w' = w
      | Inr bmp \<Rightarrow> file_write e bmp d \<noteq> None \<and> files w' = (files w)(bmp \<mapsto> []))"
  by (auto simp: write_bmp_file_def split: sum.splits option.splits)

text \<open>
  C1, as the code has it. Take a path that \<^verbatim>\<open>NamedTemporaryFile\<close> or \<^verbatim>\<open>mkstemp\<close> hands
  out in this call, new (no file of that name exists when the function is called) and not
  empty. If writing the BMP data does not raise and \<^verbatim>\<open>os.remove\<close> of the path does not
  raise, then no file of that name exists when the call is over, whether the function
  returned or raised, at whatever stage.
\<close>

theorem temp_files_removed_when_removal_succeeds:
  assumes handed: "named_temporary_file e ''.bmp'' = Inr p \<or> mkstemp e ''.svg'' = Inr p"
    and fresh: "files w p = None"
    and nonempty: "p \<noteq> []"
    and written: "\<And>bmp d. named_temporary_file e ''.bmp'' = Inr bmp \<Longrightarrow> file_write e bmp d = None"
    and removable: "\<not> os_remove_fails e p"
  shows "files (snd (upscale_with_vectorization e pil_image potrace_args scale_kw ow oh w)) p = None"
proof -
  obtain res w' where run: "upscale_with_vectorization e pil_image potrace_args scale_kw ow oh w = (res, w')"
    by (cases "upscale_with_vectorization e pil_image potrace_args scale_kw ow oh w")
  from run have "files w' p = None"
  proof (cases rule: upscale_cases)
    case not_found
    then show ?thesis using fresh by simp
  next
    case (normalize_failed x)
    then show ?thesis using fresh by (auto dest: alpha_normalize_world)
  next
    case (encode_failed im w1 x)
    then show ?thesis using fresh by (auto dest!: alpha_normalize_world encode_bmp_world)
  next
    case (write_failed im w1 bmp_data w2 x)
    have "files w2 = files w"
      using write_failed by (auto dest!: alpha_normalize_world encode_bmp_world)
    moreover have "w' = w2"
      using write_bmp_file_failed [OF write_failed(4)] written
      by (auto split: sum.splits)
    ultimately show ?thesis using fresh by simp
  next
    case (entered im w1 bmp_data w2 bmp w3 svg w4)
    have f2: "files w2 = files w"
      using entered by (auto dest!: alpha_normalize_world encode_bmp_world)
    have bmp: "named_temporary_file e ''.bmp'' = Inr bmp" and f3: "files w3 = (files w)(bmp \<mapsto> bmp_data)"
      using write_bmp_file_path [OF entered(4)] f2 by simp_all
    show ?thesis
    proof (cases "p = bmp")
      case True
      then show ?thesis using entered(6) removable by (simp add: cleanup_removes_bmp)
    next
      case False
      with handed bmp have p: "mkstemp e ''.svg'' = Inr p" by auto
      show ?thesis
      proof (cases svg)
        case None
        then have "w4 = w3" using try_body_svg_path [OF entered(5)] by simp
        then have "files w4 p = None" using f3 False fresh by simp
        then show ?thesis using entered(6) by (simp add: cleanup_keeps_absent)
      next
        case (Some q)
        then have "q = p" using try_body_svg_path [OF entered(5)] p by simp
        then show ?thesis using entered(6) Some removable nonempty by (simp add: cleanup_removes_svg)
      qed
    qed
  qed
  then show ?thesis using run by simp
qed

theorem temp_files_removed_when_removal_succeeds_witness:
  "files (snd (upscale_with_vectorization sample_env 0 None None None None sample_world)) ''/tmp/tmpin.bmp'' = None \<and>
   files (snd (upscale_with_vectorization sample_env 0 None None None None sample_world)) ''/tmp/tmpout.svg'' = None"
  using temp_files_removed_when_removal_succeeds
          [where e = sample_env and p = "''/tmp/tmpin.bmp''" and w = sample_world and pil_image = 0
             and potrace_args = None and scale_kw = None and ow = None and oh = None]
        temp_files_removed_when_removal_succeeds
          [where e = sample_env and p = "''/tmp/tmpout.svg''" and w = sample_world and pil_image = 0
             and potrace_args = None and scale_kw = None and ow = None and oh = None]
  by (simp add: sample_env_def sample_world_def)

text \<open>
  The claim as stated fails: a removal that raises is dropped and the file stays. In the
  sample run with an \<^verbatim>\<open>os.remove\<close> that raises, the function returns its image and both
  temp files of the call, new when it began, exist afterwards.
\<close>

theorem temp_file_left_when_removal_fails:
  "named_temporary_file (sample_env\<lparr>os_remove_fails := (\<lambda>p. True)\<rparr>) ''.bmp'' = Inr ''/tmp/tmpin.bmp'' \<and>
   mkstemp (sample_env\<lparr>os_remove_fails := (\<lambda>p. True)\<rparr>) ''.svg'' = Inr ''/tmp/tmpout.svg'' \<and>
   files sample_world ''/tmp/tmpin.bmp'' = None \<and>
   files sample_world ''/tmp/tmpout.svg'' = None \<and>
   fst (upscale_with_vectorization (sample_env\<lparr>os_remove_fails := (\<lambda>p. True)\<rparr>) 0 None None None None
          sample_world) = Inr 5 \<and>
   files (snd (upscale_with_vectorization (sample_env\<lparr>os_remove_fails := (\<lambda>p. True)\<rparr>) 0 None None None None
          sample_world)) ''/tmp/tmpin.bmp'' = Some ''BM'' \<and>
   files (snd (upscale_with_vectorization (sample_env\<lparr>os_remove_fails := (\<lambda>p. True)\<rparr>) 0 None None None None
          sample_world)) ''/tmp/tmpout.svg'' = Some ''<svg/>''"
  by (simp add: pipeline_defs sample_env_def sample_world_def sample_image_def Let_def)


text \<open>
  The write of step 3 stands before the \<^verbatim>\<open>try\<close>: when it raises, the \<^verbatim>\<open>finally\<close> block
  never runs. In the sample run with a write that raises, the exception reaches the caller
  and the BMP temp file, created by then, exists afterwards, although no removal fails.
\<close>

theorem bmp_file_left_when_write_fails:
  "files sample_world ''/tmp/tmpin.bmp'' = None \<and>
   os_remove_fails (sample_env\<lparr>file_write := (\<lambda>p d. Some ''No space left on device'')\<rparr>) ''/tmp/tmpin.bmp'' = False \<and>
   fst (upscale_with_vectorization (sample_env\<lparr>file_write := (\<lambda>p d. Some ''No space left on device'')\<rparr>)
          0 None None None None sample_world) = Inl (OtherException ''No space left on device'') \<and>
   files (snd (upscale_with_vectorization (sample_env\<lparr>file_write := (\<lambda>p d. Some ''No space left on device'')\<rparr>)
          0 None None None None sample_world)) ''/tmp/tmpin.bmp'' = Some []"
  by (simp add: pipeline_defs sample_env_def sample_world_def sample_image_def Let_def)

section \<open>The external calls of one invocation\<close>

lemma new_calls_same: "calls w' = calls w \<Longrightarrow> new_calls w w' = []"
  by (simp add: new_calls_def)

lemma new_calls_append: "calls w' = calls w @ es \<Longrightarrow> new_calls w w' = es"
  by (simp add: new_calls_def)

lemma encode_bmp_calls:
  "encode_bmp e r w = (x, w') \<Longrightarrow>
     calls w' = calls w \<or> calls w' = calls w @ [BmpSave (heap w' ! r)]"
  by (auto simp: encode_bmp_def save_def Let_def split: prod.splits sum.splits dest!: load_world)

lemma encode_bmp_ok_calls:
  "encode_bmp e r w = (Inr d, w') \<Longrightarrow> calls w' = calls w @ [BmpSave (heap w' ! r)]"
  by (auto simp: encode_bmp_def save_def Let_def split: prod.splits sum.splits dest!: load_world)


text \<open>The ways through \<^verbatim>\<open>subprocess.run\<close>, each with the events it leaves.\<close>

lemma subprocess_run_cases [consumes 1, case_names launch_failed undecodable completed]:
  assumes "subprocess_run e command w = (x, w')"
  obtains
    msg where "child_process e command (files w) = Inl msg" and "x = Inl msg"
      and "w' = w\<lparr>calls := calls w @ [Run command None]\<rparr>"
  | child fs msg where "child_process e command (files w) = Inr (child, fs)"
      and "communicate e child = Inl msg" and "x = Inl msg"
      and "w' = w\<lparr>files := fs, calls := calls w @ [Exited command child, Run command None]\<rparr>"
  | child fs result where "child_process e command (files w) = Inr (child, fs)"
      and "communicate e child = Inr result" and "x = Inr result"
      and "w' = w\<lparr>files := fs, calls := calls w @ [Exited command child, Run command (Some result)]\<rparr>"
proof (cases "child_process e command (files w)")
  case (Inl msg)
  have "x = Inl msg" and "w' = w\<lparr>calls := calls w @ [Run command None]\<rparr>"
    using assms Inl by (simp_all add: subprocess_run_def)
  with Inl show ?thesis by (rule that(1))
next
  case (Inr ran)
  obtain child fs where ran: "ran = (child, fs)" by (cases ran)
  have launched: "child_process e command (files w) = Inr (child, fs)" using Inr ran by simp
  show ?thesis
  proof (cases "communicate e child")
    case (Inl msg)
    have "x = Inl msg"
      and "w' = w\<lparr>files := fs, calls := calls w @ [Exited command child, Run command None]\<rparr>"
      using assms launched Inl by (simp_all add: subprocess_run_def Let_def)
    with launched Inl show ?thesis by (rule that(2))
  next
    case res: (Inr result)
    have "x = Inr result"
      and "w' = w\<lparr>files := fs, calls := calls w @ [Exited command child, Run command (Some result)]\<rparr>"
      using assms launched res by (simp_all add: subprocess_run_def Let_def)
    with launched res show ?thesis by (rule that(3))
  qed
qed



text \<open>
  The ways through the \<^verbatim>\<open>try\<close> block, each with the external calls it makes: the child
  process is run once, on the command line built from the two temp paths, and the
  renderer is called at most once, and only after exit status 0.
\<close>

lemma try_body_cases [consumes 1, case_names mkstemp_failed launch_failed undecodable exit_nonzero
    read_failed render_failed rendered]:
  assumes "try_body e bmp args sc ow oh w = (res, svg, w')"
  obtains
    msg where "mkstemp e ''.svg'' = Inl msg" and "res = Inl (OtherException msg)"
      and "svg = None" and "w' = w"
  | svgp msg where "mkstemp e ''.svg'' = Inr svgp" and "svg = Some svgp"
      and "res = Inl (OtherException msg)"
      and "calls w' = calls w @ [Run (build_command bmp svgp args) None]"
  | svgp child msg where "mkstemp e ''.svg'' = Inr svgp" and "svg = Some svgp"
      and "communicate e child = Inl msg"
      and "res = Inl (OtherException msg)"
      and "calls w' = calls w @ [Exited (build_command bmp svgp args) child,
             Run (build_command bmp svgp args) None]"
  | svgp child result where "mkstemp e ''.svg'' = Inr svgp" and "svg = Some svgp"
      and "communicate e child = Inr result"
      and "returncode result \<noteq> 0"
      and "res = Inl (RuntimeError (''Potrace execution failed: '' @ stderr result))"
      and "calls w' = calls w @ [Exited (build_command bmp svgp args) child,
             Run (build_command bmp svgp args) (Some result)]"
  | svgp child result where "mkstemp e ''.svg'' = Inr svgp" and "svg = Some svgp"
      and "communicate e child = Inr result"
      and "returncode result = 0"
      and "res = Inl (RuntimeError (''Failed to read generated SVG file: '' @ open_error e svgp))"
      and "calls w' = calls w @ [Exited (build_command bmp svgp args) child,
             Run (build_command bmp svgp args) (Some result)]"
  | svgp child result svg_data msg where "mkstemp e ''.svg'' = Inr svgp" and "svg = Some svgp"
      and "communicate e child = Inr result"
      and "returncode result = 0"
      and "res = Inl (RuntimeError (''Failed to convert SVG to PNG using CairoSVG: '' @ msg))"
      and "calls w' = calls w @ [Exited (build_command bmp svgp args) child,
             Run (build_command bmp svgp args) (Some result),
             Svg2Png \<lparr>bytestring = svg_data, scale = sc, output_width = ow, output_height = oh\<rparr>]"
  | svgp child result svg_data png_bytes w3 where "mkstemp e ''.svg'' = Inr svgp" and "svg = Some svgp"
      and "communicate e child = Inr result"
      and "returncode result = 0"
      and "open_png e png_bytes w3 = (res, w')"
      and "calls w' = calls w @ [Exited (build_command bmp svgp args) child,
             Run (build_command bmp svgp args) (Some result),
             Svg2Png \<lparr>bytestring = svg_data, scale = sc, output_width = ow, output_height = oh\<rparr>]"
proof (cases "mkstemp e ''.svg''")
  case (Inl msg)
  with assms that(1) show ?thesis by (auto simp: try_body_def)
next
  case (Inr svgp)
  let ?w1 = "w\<lparr>files := (files w)(svgp \<mapsto> [])\<rparr>"
  let ?cmd = "build_command bmp svgp args"
  obtain x w2 where sp: "subprocess_run e ?cmd ?w1 = (x, w2)" by (cases "subprocess_run e ?cmd ?w1")
  from sp show ?thesis
  proof (cases rule: subprocess_run_cases)
    case (launch_failed msg)
    with assms Inr sp that(2) show ?thesis by (auto simp: try_body_def Let_def)
  next
    case (undecodable child fs msg)
    with assms Inr sp that(3) show ?thesis by (auto simp: try_body_def Let_def)
  next
    case (completed child fs result)
    then have c2: "calls w2 = calls w @ [Exited ?cmd child, Run ?cmd (Some result)]" by simp
    show ?thesis
    proof (cases "returncode result = 0")
      case False
      with assms Inr sp completed(2,3) c2 that(4) show ?thesis by (auto simp: try_body_def Let_def)
    next
      case True
      show ?thesis
      proof (cases "read_svg e svgp w2")
        case (Inl x')
        then have "x' = RuntimeError (''Failed to read generated SVG file: '' @ open_error e svgp)"
          by (auto simp: read_svg_def split: option.splits)
        with assms Inr sp completed(2,3) c2 True Inl that(5) show ?thesis
          by (auto simp: try_body_def Let_def)
      next
        case rd: (Inr svg_data)
        let ?args = "\<lparr>bytestring = svg_data, scale = sc, output_width = ow, output_height = oh\<rparr>"
        let ?w3 = "w2\<lparr>calls := calls w2 @ [Svg2Png ?args]\<rparr>"
        show ?thesis
        proof (cases "svg2png e ?args")
          case (Inl msg)
          with assms Inr sp completed(2,3) c2 True rd that(6) show ?thesis
            by (auto simp: try_body_def render_png_def Let_def)
        next
          case png: (Inr png_bytes)
          obtain r4 w4 where op: "open_png e png_bytes ?w3 = (r4, w4)" by (cases "open_png e png_bytes ?w3")
          have "calls w4 = calls ?w3" using open_png_world [OF op] by simp
          with assms Inr sp completed(2,3) c2 True rd png op that(7) show ?thesis
            by (auto simp: try_body_def render_png_def Let_def)
        qed
      qed
    qed
  qed
qed

lemma try_body_calls_prefix:
  assumes "try_body e bmp args sc ow oh w = (res, svg, w')"
  shows "calls w' = calls w @ new_calls w w'"
  using assms by (cases rule: try_body_cases) (simp_all add: new_calls_def)

text \<open>
  The external calls of a whole invocation: nothing before the encoder is called, and
  once the \<^verbatim>\<open>try\<close> block is entered, the encoder call followed by the calls of the block.
\<close>

lemma upscale_new_calls:
  assumes "upscale_with_vectorization e pil_image potrace_args scale_kw ow oh w = (res, w')"
  shows "set (new_calls w w') \<subseteq> range BmpSave \<or>
         (\<exists>im w1 bmp_data w2 bmp w3 svg w4.
            alpha_normalize e pil_image w = (Inr im, w1) \<and>
            encode_bmp e im w1 = (Inr bmp_data, w2) \<and>
            write_bmp_file e bmp_data w2 = (Inr bmp, w3) \<and>
            try_body e bmp potrace_args (case scale_kw of None \<Rightarrow> 1 | Some s \<Rightarrow> s) ow oh w3 = (res, svg, w4) \<and>
            new_calls w w' = BmpSave (heap w2 ! im) # new_calls w3 w4)"
  using assms
proof (cases rule: upscale_cases)
  case not_found
  then show ?thesis by (simp add: new_calls_def)
next
  case (normalize_failed x)
  then show ?thesis by (auto dest!: alpha_normalize_world simp: new_calls_def)
next
  case (encode_failed im w1 x)
  have "calls w1 = calls w" using encode_failed(2) by (simp add: alpha_normalize_world)
  then show ?thesis using encode_bmp_calls [OF encode_failed(3)] by (auto simp: new_calls_def)
next
  case (write_failed im w1 bmp_data w2 x)
  have "calls w1 = calls w" using write_failed(2) by (simp add: alpha_normalize_world)
  moreover have "calls w' = calls w2" using write_failed(4) by (simp add: write_bmp_file_world)
  ultimately show ?thesis using encode_bmp_calls [OF write_failed(3)] by (auto simp: new_calls_def)
next
  case (entered im w1 bmp_data w2 bmp w3 svg w4)
  have "calls w1 = calls w" using entered(2) by (simp add: alpha_normalize_world)
  then have c2: "calls w2 = calls w @ [BmpSave (heap w2 ! im)]"
    using encode_bmp_ok_calls [OF entered(3)] by simp
  have c3: "calls w3 = calls w2" using entered(4) by (simp add: write_bmp_file_world)
  have c4: "calls w4 = calls w3 @ new_calls w3 w4" using entered(5) by (rule try_body_calls_prefix)
  have "calls w' = calls w4" using entered(6) by (simp add: cleanup_world)
  then have "new_calls w w' = BmpSave (heap w2 ! im) # new_calls w3 w4"
    using c2 c3 c4 new_calls_append [of w' w "BmpSave (heap w2 ! im) # new_calls w3 w4"] by simp
  then show ?thesis using entered by blast
qed

section \<open>The tracer's exit status\<close>




section \<open>The tracer's command line\<close>

lemma build_command_extra:
  "extra \<noteq> [] \<Longrightarrow>
     build_command bmp svg (Some extra) = ''potrace'' # extra @ [bmp, ''-s'', ''-o'', svg]"
  by (simp add: build_command_def)

text \<open>
  C7. When the caller passes a non-empty list of extra arguments, every command line the
  invocation runs is the tool name, the extra arguments in their order, the path of the
  BMP temp file, \<^verbatim>\<open>-s\<close>, \<^verbatim>\<open>-o\<close> and the path of the SVG temp file.
\<close>

theorem extra_arguments_follow_tool_name:
  assumes "extra \<noteq> []"
    and "named_temporary_file e ''.bmp'' = Inr bmp"
    and "mkstemp e ''.svg'' = Inr svg"
    and "Run command outcome \<in>
           set (new_calls w (snd (upscale_with_vectorization e pil_image (Some extra) scale_kw ow oh w)))"
  shows "command = ''potrace'' # extra @ [bmp, ''-s'', ''-o'', svg]"
proof -
  obtain res w' where run: "upscale_with_vectorization e pil_image (Some extra) scale_kw ow oh w = (res, w')"
    by (cases "upscale_with_vectorization e pil_image (Some extra) scale_kw ow oh w")
  with assms(4) have ev: "Run command outcome \<in> set (new_calls w w')" by simp
  from upscale_new_calls [OF run] ev obtain bmp_data w2 bmp' sc w3 svgo w4
    where wr: "write_bmp_file e bmp_data w2 = (Inr bmp', w3)"
      and body: "try_body e bmp' (Some extra) sc ow oh w3 = (res, svgo, w4)"
      and ev4: "Run command outcome \<in> set (new_calls w3 w4)"
    by auto
  have bmp': "bmp' = bmp" using write_bmp_file_path [OF wr] assms(2) by simp
  from body have "command = build_command bmp svg (Some extra)"
    by (cases rule: try_body_cases)
       (use ev4 assms(3) bmp' in \<open>auto simp: new_calls_append new_calls_same\<close>)
  then show ?thesis using assms(1) by (simp add: build_command_extra)
qed

theorem extra_arguments_follow_tool_name_witness:
  "Run [''potrace'', ''-t'', ''5'', ''/tmp/tmpin.bmp'', ''-s'', ''-o'', ''/tmp/tmpout.svg'']
       (Some \<lparr>returncode = 0, stdout = [], stderr = []\<rparr>)
     \<in> set (new_calls sample_world
              (snd (upscale_with_vectorization sample_env 0 (Some [''-t'', ''5'']) None None None sample_world))) \<and>
   [''potrace'', ''-t'', ''5'', ''/tmp/tmpin.bmp'', ''-s'', ''-o'', ''/tmp/tmpout.svg'']
     = ''potrace'' # [''-t'', ''5''] @ [''/tmp/tmpin.bmp'', ''-s'', ''-o'', ''/tmp/tmpout.svg'']"
proof -
  have ran: "Run [''potrace'', ''-t'', ''5'', ''/tmp/tmpin.bmp'', ''-s'', ''-o'', ''/tmp/tmpout.svg'']
       (Some \<lparr>returncode = 0, stdout = [], stderr = []\<rparr>)
     \<in> set (new_calls sample_world
              (snd (upscale_with_vectorization sample_env 0 (Some [''-t'', ''5'']) None None None sample_world)))"
    by (simp add: pipeline_defs new_calls_def sample_env_def sample_world_def sample_image_def Let_def)
  have extra: "[''-t'', ''5''] \<noteq> ([] :: string list)" by simp
  have bmp: "named_temporary_file sample_env ''.bmp'' = Inr ''/tmp/tmpin.bmp''"
    by (simp add: sample_env_def)
  have svg: "mkstemp sample_env ''.svg'' = Inr ''/tmp/tmpout.svg''"
    by (simp add: sample_env_def)
  show ?thesis
    using ran extra_arguments_follow_tool_name [OF extra bmp svg ran] by (rule conjI)
qed

section \<open>The renderer's arguments\<close>

text \<open>
  C8, as the code has it. Every call of the renderer in an invocation carries the scale
  the function was called with (1.0 when the caller left it out), and the output width and
  the output height exactly as the caller passed them, absent or present, each on its
  own: nothing makes the scale and an explicit size exclude each other. When the caller
  passes none of the three, the renderer gets the scale 1.0 and neither width nor height.
\<close>

theorem renderer_gets_scale_and_size_as_passed:
  assumes "Svg2Png args \<in>
             set (new_calls w (snd (upscale_with_vectorization e pil_image potrace_args scale_kw ow oh w)))"
  shows "scale args = (case scale_kw of None \<Rightarrow> 1 | Some s \<Rightarrow> s) \<and>
         output_width args = ow \<and> output_height args = oh"
proof -
  obtain res w' where run: "upscale_with_vectorization e pil_image potrace_args scale_kw ow oh w = (res, w')"
    by (cases "upscale_with_vectorization e pil_image potrace_args scale_kw ow oh w")
  with assms have ev: "Svg2Png args \<in> set (new_calls w w')" by simp
  from upscale_new_calls [OF run] ev obtain bmp w3 svg w4
    where body: "try_body e bmp potrace_args (case scale_kw of None \<Rightarrow> 1 | Some s \<Rightarrow> s) ow oh w3 = (res, svg, w4)"
      and ev4: "Svg2Png args \<in> set (new_calls w3 w4)"
    by auto
  from body show ?thesis
    by (cases rule: try_body_cases) (use ev4 in \<open>auto simp: new_calls_append new_calls_same\<close>)
qed

theorem renderer_gets_scale_and_size_as_passed_witness:
  "scale \<lparr>bytestring = ''<svg/>'', scale = 1, output_width = None, output_height = None\<rparr>
     = (case (None :: real option) of None \<Rightarrow> 1 | Some s \<Rightarrow> s) \<and>
   output_width \<lparr>bytestring = ''<svg/>'', scale = 1, output_width = None, output_height = None\<rparr> = None \<and>
   output_height \<lparr>bytestring = ''<svg/>'', scale = 1, output_width = None, output_height = None\<rparr> = None"
proof -
  have called: "Svg2Png \<lparr>bytestring = ''<svg/>'', scale = 1, output_width = None, output_height = None\<rparr>
     \<in> set (new_calls sample_world
              (snd (upscale_with_vectorization sample_env 0 None None None None sample_world)))"
    by (simp add: pipeline_defs new_calls_def sample_env_def sample_world_def sample_image_def Let_def)
  show ?thesis by (rule renderer_gets_scale_and_size_as_passed [OF called])
qed

text \<open>
  The claim as stated fails: called with \<^verbatim>\<open>scale=2.0, output_width=100, output_height=50\<close>
  the function hands the renderer one request with the scale 2 and the explicit size
  100 by 50 together.
\<close>

theorem renderer_gets_scale_and_size_together:
  "new_calls sample_world
     (snd (upscale_with_vectorization sample_env 0 None (Some 2) (Some 100) (Some 50) sample_world))
   = [BmpSave \<lparr>mode = ''RGB'', size_wh = (2, 1), pixels = [[255, 255, 255], [10, 20, 30]], loaded = True\<rparr>,
      Exited [''potrace'', ''/tmp/tmpin.bmp'', ''-s'', ''-o'', ''/tmp/tmpout.svg'']
          \<lparr>exit_status = 0, out_bytes = [], err_bytes = []\<rparr>,
      Run [''potrace'', ''/tmp/tmpin.bmp'', ''-s'', ''-o'', ''/tmp/tmpout.svg'']
          (Some \<lparr>returncode = 0, stdout = [], stderr = []\<rparr>),
      Svg2Png \<lparr>bytestring = ''<svg/>'', scale = 2, output_width = Some 100, output_height = Some 50\<rparr>]"
  by (simp add: pipeline_defs new_calls_def sample_env_def sample_world_def sample_image_def Let_def
        alpha_composite_px_def composite_channel_def SHIFTFORDIV255_def replicate_2)

section \<open>Alpha normalization\<close>

text \<open>Compositing over opaque white, at the two ends of the alpha range.\<close>

lemma opaque_channel_arith:
  "n < 256 \<Longrightarrow> ((n * 32640 + 16384) div 256 + (n * 32640 + 16384)) div 256 div 128 = (n::nat)"
  by arith

lemma composite_channel_opaque: "composite_channel 32640 0 s d = s"
proof -
  have "unat s < 256" using unsigned_less [of s] by simp
  then show ?thesis
    by (simp add: composite_channel_def SHIFTFORDIV255_def opaque_channel_arith)
qed

lemma white_composite_transparent:
  "alpha_composite_px [255, 255, 255, 255] [r, g, b, 0] = [255, 255, 255, 255]"
  by (simp add: alpha_composite_px_def)

lemma white_composite_opaque:
  "alpha_composite_px [255, 255, 255, 255] [r, g, b, 255] = [r, g, b, 255]"
  by (simp add: alpha_composite_px_def Let_def composite_channel_opaque SHIFTFORDIV255_def)


lemma map2_replicate: "map2 f (replicate n c) xs = map (f c) (take n xs)"
proof (induction n arbitrary: xs)
  case 0
  show ?case by simp
next
  case (Suc n)
  then show ?case by (cases xs) simp_all
qed

lemma load_same_content: "load e r w = (x, w') \<Longrightarrow> same_content (heap w ! i) (heap w' ! i)"
  by (auto simp: load_def Let_def same_content_def nth_update_any split: if_splits option.splits)

text \<open>What \<^verbatim>\<open>Image.alpha_composite\<close> and \<^verbatim>\<open>convert\<close> return, in terms of their arguments.\<close>

lemma alpha_composite_result:
  assumes "alpha_composite e a b w = (Inr c, w')" and "mode (heap w ! a) = ''RGBA''"
  shows "c = length (heap w) \<and> length (heap w') = Suc c \<and>
         mode (heap w' ! c) = ''RGBA'' \<and>
         size_wh (heap w' ! c) = size_wh (heap w ! a) \<and>
         pixels (heap w' ! c) = map2 alpha_composite_px (pixels (heap w ! a)) (pixels (heap w ! b))"
proof -
  from assms(1) obtain u1 w1 u2 w2 where
    l1: "load e a w = (Inr u1, w1)" and l2: "load e b w1 = (Inr u2, w2)"
    by (auto simp: alpha_composite_def split: prod.splits sum.splits)
  have len: "length (heap w2) = length (heap w)" using load_world [OF l1] load_world [OF l2] by simp
  have a: "same_content (heap w ! a) (heap w2 ! a)"
    using load_same_content [OF l1, of a] load_same_content [OF l2, of a] by (rule same_content_trans)
  then have "mode (heap w2 ! a) = ''RGBA''" using assms(2) by (simp add: same_content_def)
  then have al: "alloc \<lparr>mode = ''RGBA'', size_wh = size_wh (heap w2 ! a),
                     pixels = map2 alpha_composite_px (pixels (heap w2 ! a)) (pixels (heap w2 ! b)),
                     loaded = True\<rparr> w2 = (c, w')"
    using assms(1) l1 l2
    by (auto simp: alpha_composite_def Let_def split: prod.splits if_splits)
  have b: "same_content (heap w ! b) (heap w2 ! b)"
    using load_same_content [OF l1, of b] load_same_content [OF l2, of b] by (rule same_content_trans)
  show ?thesis
    using alloc_world [OF al] len a b by (auto simp: same_content_def nth_append)
qed

lemma convert_content:
  assumes "convert e r m w = (Inr r', w')"
  shows "size_wh (heap w' ! r') = size_wh (heap w ! r) \<and>
         convert_pixels e (mode (heap w ! r)) m (pixels (heap w ! r)) = Inr (pixels (heap w' ! r'))"
proof -
  from assms obtain u w1 px where
    l1: "load e r w = (Inr u, w1)"
    and cp: "convert_pixels e (mode (heap w1 ! r)) m (pixels (heap w1 ! r)) = Inr px"
    and al: "alloc \<lparr>mode = m, size_wh = size_wh (heap w1 ! r), pixels = px, loaded = True\<rparr> w1 = (r', w')"
    by (auto simp: convert_def Let_def split: prod.splits sum.splits)
  have "same_content (heap w ! r) (heap w1 ! r)" using l1 by (rule load_same_content)
  moreover have "length (heap w1) = length (heap w)" using load_world [OF l1] by simp
  ultimately show ?thesis using alloc_world [OF al] cp by (auto simp: same_content_def nth_append)
qed

text \<open>
  Step 1 on an RGBA image: the image the local variable is bound to afterwards is a new
  RGB image of the same size, whose pixels are the input's pixels composited over white,
  without their alpha byte.
\<close>

lemma alpha_normalize_RGBA:
  assumes "alpha_normalize e r w = (Inr im, w')"
    and "mode (heap w ! r) = ''RGBA''" and "r < length (heap w)"
  shows "im < length (heap w') \<and> mode (heap w' ! im) = ''RGB'' \<and>
         size_wh (heap w' ! im) = size_wh (heap w ! r) \<and>
         pixels (heap w' ! im) =
           map (\<lambda>p. take 3 (alpha_composite_px [255, 255, 255, 255] p))
             (take (fst (size_wh (heap w ! r)) * snd (size_wh (heap w ! r))) (pixels (heap w ! r)))"
proof -
  let ?sz = "size_wh (heap w ! r)"
  from assms(1,2) obtain bg w1 c w2 where
    new: "Image_new ''RGBA'' ?sz [255, 255, 255, 255] w = (bg, w1)"
    and comp: "alpha_composite e bg r w1 = (Inr c, w2)"
    and conv: "convert e c ''RGB'' w2 = (Inr im, w')"
    by (auto simp: alpha_normalize_def split: prod.splits sum.splits)
  have h1: "heap w1 = heap w @ [\<lparr>mode = ''RGBA'', size_wh = ?sz,
              pixels = replicate (fst ?sz * snd ?sz) [255, 255, 255, 255], loaded = True\<rparr>]"
    and bg: "bg = length (heap w)"
    using Image_new_world [OF new] by simp_all
  have r1: "heap w1 ! r = heap w ! r" using h1 assms(3) by (simp add: nth_append)
  have bg1: "heap w1 ! bg = \<lparr>mode = ''RGBA'', size_wh = ?sz,
              pixels = replicate (fst ?sz * snd ?sz) [255, 255, 255, 255], loaded = True\<rparr>"
    using h1 bg by simp
  have c: "size_wh (heap w2 ! c) = ?sz"
    "pixels (heap w2 ! c) = map (alpha_composite_px [255, 255, 255, 255])
        (take (fst ?sz * snd ?sz) (pixels (heap w ! r)))"
    using alpha_composite_result [OF comp] r1 bg1 bg by (auto simp: map2_replicate)
  have cm: "mode (heap w2 ! c) = ''RGBA''"
    using alpha_composite_result [OF comp] bg1 by auto
  have "convert_pixels e ''RGBA'' ''RGB'' (pixels (heap w2 ! c)) = Inr (pixels (heap w' ! im))"
    and sz: "size_wh (heap w' ! im) = ?sz"
    using convert_content [OF conv] cm c(1) by auto
  then have px: "pixels (heap w' ! im) = map (take 3) (pixels (heap w2 ! c))"
    by (simp add: convert_pixels_def)
  have "im < length (heap w')" "mode (heap w' ! im) = ''RGB''"
    using convert_result [OF conv] by auto
  then show ?thesis using sz px c(2) by (simp add: comp_def)
qed


lemma try_body_no_encoder_call:
  assumes "try_body e bmp args sc ow oh w = (res, svg, w')"
  shows "BmpSave img \<notin> set (new_calls w w')"
  using assms by (cases rule: try_body_cases) (auto simp: new_calls_append new_calls_same)

text \<open>
  The encoder is called at most once in an invocation, in step 2, with the image that
  step 1 bound the local variable to.
\<close>

lemma upscale_encoder_call:
  assumes "upscale_with_vectorization e pil_image potrace_args scale_kw ow oh w = (res, w')"
    and ev: "BmpSave img \<in> set (new_calls w w')"
  shows "\<exists>im w1 x w2. alpha_normalize e pil_image w = (Inr im, w1) \<and>
           encode_bmp e im w1 = (x, w2) \<and> img = heap w2 ! im"
  using assms(1)
proof (cases rule: upscale_cases)
  case not_found
  then show ?thesis using ev by (simp add: new_calls_def)
next
  case (normalize_failed x)
  then show ?thesis using ev by (auto dest!: alpha_normalize_world simp: new_calls_def)
next
  case (encode_failed im w1 x)
  have "calls w1 = calls w" using encode_failed(2) by (simp add: alpha_normalize_world)
  then have "img = heap w' ! im"
    using encode_bmp_calls [OF encode_failed(3)] ev by (auto simp: new_calls_def)
  then show ?thesis using encode_failed by blast
next
  case (write_failed im w1 bmp_data w2 x)
  have "calls w1 = calls w" using write_failed(2) by (simp add: alpha_normalize_world)
  moreover have "calls w' = calls w2" using write_failed(4) by (simp add: write_bmp_file_world)
  ultimately have "img = heap w2 ! im"
    using encode_bmp_calls [OF write_failed(3)] ev by (auto simp: new_calls_def)
  then show ?thesis using write_failed by blast
next
  case (entered im w1 bmp_data w2 bmp w3 svg w4)
  have "calls w1 = calls w" using entered(2) by (simp add: alpha_normalize_world)
  then have c2: "calls w2 = calls w @ [BmpSave (heap w2 ! im)]"
    using encode_bmp_ok_calls [OF entered(3)] by simp
  have c3: "calls w3 = calls w2" using entered(4) by (simp add: write_bmp_file_world)
  have c4: "calls w4 = calls w3 @ new_calls w3 w4" using entered(5) by (rule try_body_calls_prefix)
  have "calls w' = calls w4" using entered(6) by (simp add: cleanup_world)
  then have "new_calls w w' = BmpSave (heap w2 ! im) # new_calls w3 w4"
    using c2 c3 c4 new_calls_append [of w' w "BmpSave (heap w2 ! im) # new_calls w3 w4"] by simp
  then have "img = heap w2 ! im"
    using ev try_body_no_encoder_call [OF entered(5), of img] by simp
  then show ?thesis using entered by blast
qed

text \<open>
  Step 1 on an image of any other mode: nothing is allocated, the local variable stays
  bound to the caller's image and the world is the same.
\<close>

lemma alpha_normalize_other:
  assumes "alpha_normalize e r w = (x, w')" and "mode (heap w ! r) \<noteq> ''RGBA''"
  shows "x = Inr r \<and> w' = w"
  using assms by (simp add: alpha_normalize_def)

text \<open>
  C5, as the code has it. When the input image has the mode RGBA, the image handed to the
  BMP encoder is not the input: it has the mode RGB and the input's size, and each of its
  pixels is the input pixel composited over the opaque white pixel, without the alpha
  byte. Compositing is not dropping the channel: a fully transparent pixel becomes white
  whatever its colour bytes are, and a fully opaque pixel keeps them. When the input
  image has any other mode, with an alpha channel or without, the image handed to the
  encoder has the mode, the size and the pixels of the input.
\<close>

theorem only_RGBA_image_is_composited_before_encoding:
  assumes "pil_image < length (heap w)"
    and "BmpSave img \<in>
           set (new_calls w (snd (upscale_with_vectorization e pil_image potrace_args scale_kw ow oh w)))"
  shows "(mode (heap w ! pil_image) = ''RGBA'' \<longrightarrow>
            mode img = ''RGB'' \<and>
            size_wh img = size_wh (heap w ! pil_image) \<and>
            pixels img =
              map (\<lambda>p. take 3 (alpha_composite_px [255, 255, 255, 255] p))
                (take (fst (size_wh (heap w ! pil_image)) * snd (size_wh (heap w ! pil_image)))
                   (pixels (heap w ! pil_image)))) \<and>
         (mode (heap w ! pil_image) \<noteq> ''RGBA'' \<longrightarrow>
            mode img = mode (heap w ! pil_image) \<and>
            size_wh img = size_wh (heap w ! pil_image) \<and>
            pixels img = pixels (heap w ! pil_image)) \<and>
         (\<forall>r g b. take 3 (alpha_composite_px [255, 255, 255, 255] [r, g, b, 0]) = [255, 255, 255]) \<and>
         (\<forall>r g b. take 3 (alpha_composite_px [255, 255, 255, 255] [r, g, b, 255]) = [r, g, b])"
proof -
  obtain res w' where run: "upscale_with_vectorization e pil_image potrace_args scale_kw ow oh w = (res, w')"
    by (cases "upscale_with_vectorization e pil_image potrace_args scale_kw ow oh w")
  with assms(2) have ev: "BmpSave img \<in> set (new_calls w w')" by simp
  from upscale_encoder_call [OF run ev] obtain im w1 x w2 where
    norm: "alpha_normalize e pil_image w = (Inr im, w1)"
    and enc: "encode_bmp e im w1 = (x, w2)" and img: "img = heap w2 ! im"
    by blast
  have kept: "heap_kept w1 w2" using enc by (rule encode_bmp_kept)
  have composited: "mode img = ''RGB'' \<and>
         size_wh img = size_wh (heap w ! pil_image) \<and>
         pixels img =
           map (\<lambda>p. take 3 (alpha_composite_px [255, 255, 255, 255] p))
             (take (fst (size_wh (heap w ! pil_image)) * snd (size_wh (heap w ! pil_image)))
                (pixels (heap w ! pil_image)))"
    if rgba: "mode (heap w ! pil_image) = ''RGBA''"
  proof -
    note n = alpha_normalize_RGBA [OF norm rgba assms(1)]
    have "same_content (heap w1 ! im) (heap w2 ! im)" using kept n by (auto dest: heap_kept_nth)
    then have encoded: "mode img = mode (heap w1 ! im)" "size_wh img = size_wh (heap w1 ! im)"
      "pixels img = pixels (heap w1 ! im)"
      using img by (simp_all add: same_content_def)
    show ?thesis unfolding encoded using n by simp
  qed
  have as_it_is: "mode img = mode (heap w ! pil_image) \<and>
         size_wh img = size_wh (heap w ! pil_image) \<and>
         pixels img = pixels (heap w ! pil_image)"
    if other: "mode (heap w ! pil_image) \<noteq> ''RGBA''"
  proof -
    have same: "im = pil_image" "w1 = w" using alpha_normalize_other [OF norm other] by simp_all
    then have "same_content (heap w ! pil_image) (heap w2 ! pil_image)"
      using kept assms(1) by (auto dest: heap_kept_nth)
    then show ?thesis using img same by (simp add: same_content_def)
  qed
  show ?thesis
    using composited as_it_is by (simp add: white_composite_transparent white_composite_opaque)
qed

theorem only_RGBA_image_is_composited_before_encoding_witness:
  "(mode \<lparr>mode = ''RGB'', size_wh = (2, 1), pixels = [[255, 255, 255], [10, 20, 30]], loaded = True\<rparr> = ''RGB'' \<and>
    size_wh \<lparr>mode = ''RGB'', size_wh = (2, 1), pixels = [[255, 255, 255], [10, 20, 30]], loaded = True\<rparr>
      = size_wh (heap sample_world ! 0) \<and>
    pixels \<lparr>mode = ''RGB'', size_wh = (2, 1), pixels = [[255, 255, 255], [10, 20, 30]], loaded = True\<rparr> =
      map (\<lambda>p. take 3 (alpha_composite_px [255, 255, 255, 255] p))
        (take (fst (size_wh (heap sample_world ! 0)) * snd (size_wh (heap sample_world ! 0)))
           (pixels (heap sample_world ! 0)))) \<and>
   (mode \<lparr>mode = ''LA'', size_wh = (1, 1), pixels = [[200, 128]], loaded = True\<rparr>
      = mode (heap la_world ! 0) \<and>
    size_wh \<lparr>mode = ''LA'', size_wh = (1, 1), pixels = [[200, 128]], loaded = True\<rparr>
      = size_wh (heap la_world ! 0) \<and>
    pixels \<lparr>mode = ''LA'', size_wh = (1, 1), pixels = [[200, 128]], loaded = True\<rparr>
      = pixels (heap la_world ! 0))"
proof -
  have valid: "0 < length (heap sample_world)" by (simp add: sample_world_def)
  have rgba: "mode (heap sample_world ! 0) = ''RGBA''" by (simp add: sample_world_def sample_image_def)
  have encoded: "BmpSave \<lparr>mode = ''RGB'', size_wh = (2, 1), pixels = [[255, 255, 255], [10, 20, 30]], loaded = True\<rparr>
     \<in> set (new_calls sample_world
              (snd (upscale_with_vectorization sample_env 0 None None None None sample_world)))"
    by (simp add: pipeline_defs new_calls_def sample_env_def sample_world_def sample_image_def Let_def
          alpha_composite_px_def composite_channel_def SHIFTFORDIV255_def replicate_2)
  have valid_la: "0 < length (heap la_world)" by (simp add: la_world_def)
  have other: "mode (heap la_world ! 0) \<noteq> ''RGBA''" by (simp add: la_world_def la_image_def)
  have encoded_la: "BmpSave \<lparr>mode = ''LA'', size_wh = (1, 1), pixels = [[200, 128]], loaded = True\<rparr>
     \<in> set (new_calls la_world
              (snd (upscale_with_vectorization sample_env 0 None None None None la_world)))"
    by (simp add: pipeline_defs new_calls_def sample_env_def la_world_def la_image_def Let_def)
  note composited =
    only_RGBA_image_is_composited_before_encoding [OF valid encoded, THEN conjunct1, THEN mp, OF rgba]
  note as_it_is =
    only_RGBA_image_is_composited_before_encoding
      [OF valid_la encoded_la, THEN conjunct2, THEN conjunct1, THEN mp, OF other]
  show ?thesis using composited as_it_is by (rule conjI)
qed

text \<open>
  The claim as stated fails: only the mode RGBA is composited. An image of the mode LA has
  an alpha channel too; the function hands it to the BMP encoder as it is, alpha byte
  included, and the call ends with the encoder's error (Pillow writes no LA image as BMP).
\<close>

theorem LA_image_is_encoded_as_it_is:
  "mode (heap la_world ! 0) = ''LA'' \<and>
   pixels (heap la_world ! 0) = [[200, 128]] \<and>
   new_calls la_world (snd (upscale_with_vectorization sample_env 0 None None None None la_world))
     = [BmpSave \<lparr>mode = ''LA'', size_wh = (1, 1), pixels = [[200, 128]], loaded = True\<rparr>] \<and>
   fst (upscale_with_vectorization sample_env 0 None None None None la_world)
     = Inl (RuntimeError ''Failed to convert input image to BMP in memory: cannot write mode LA as BMP'')"
  by (simp add: pipeline_defs new_calls_def sample_env_def la_world_def la_image_def Let_def)

end
